theory Spec2Isabelle
  imports Main
begin

section \<open>Strings and paths\<close>

text \<open>
  JavaScript strings are modelled as \<open>string\<close>.  The helpers below are the
  built-ins that \<open>linux-sandbox-utils.ts\<close> calls on them:
  \<open>s.startsWith(p)\<close>, \<open>s.includes(sub)\<close>, \<open>s.split('/')\<close>, \<open>xs.join('/')\<close>,
  \<open>s.replace(/\/+$/, '')\<close> and \<open>xs.findIndex(pred)\<close>.
\<close>

definition startsWith :: "string \<Rightarrow> string \<Rightarrow> bool" where
  "startsWith s p = (take (length p) s = p)"

fun strIncludes :: "string \<Rightarrow> string \<Rightarrow> bool" where
  "strIncludes [] sub = (sub = [])"
| "strIncludes (c # cs) sub = (startsWith (c # cs) sub \<or> strIncludes cs sub)"

fun splitSlash :: "string \<Rightarrow> string list" where
  "splitSlash [] = [[]]"
| "splitSlash (c # cs) =
     (if c = CHR ''/'' then [] # splitSlash cs
      else (case splitSlash cs of [] \<Rightarrow> [[c]] | x # xs \<Rightarrow> (c # x) # xs))"

fun joinSlash :: "string list \<Rightarrow> string" where
  "joinSlash [] = []"
| "joinSlash [x] = x"
| "joinSlash (x # y # ys) = x @ ''/'' @ joinSlash (y # ys)"

fun joinLines :: "string list \<Rightarrow> string" where
  "joinLines [] = []"
| "joinLines [x] = x"
| "joinLines (x # y # ys) = x @ [CHR 0x0A] @ joinLines (y # ys)"

definition trimTrailingSlashes :: "string \<Rightarrow> string" where
  "trimTrailingSlashes s = rev (dropWhile (\<lambda>c. c = CHR ''/'') (rev s))"

fun findIndex :: "('a \<Rightarrow> bool) \<Rightarrow> 'a list \<Rightarrow> nat option" where
  "findIndex P [] = None"
| "findIndex P (x # xs) =
     (if P x then Some 0 else map_option Suc (findIndex P xs))"

text \<open>
  \<open>path.dirname\<close> of Node's POSIX \<open>path\<close> module.  \<open>dirnameScan\<close> is its
  backwards loop \<open>for (i = path.length - 1; i >= 1; --i)\<close> with the flag
  \<open>matchedSlash\<close>; it returns \<open>end\<close>, \<open>None\<close> standing for \<open>-1\<close>.
\<close>

fun dirnameScan :: "string \<Rightarrow> nat \<Rightarrow> bool \<Rightarrow> nat option" where
  "dirnameScan p 0 matchedSlash = None"
| "dirnameScan p (Suc i) matchedSlash =
     (if p ! Suc i = CHR ''/''
      then (if \<not> matchedSlash then Some (Suc i) else dirnameScan p i matchedSlash)
      else dirnameScan p i False)"

definition dirname :: "string \<Rightarrow> string" where
  "dirname p =
     (if p = [] then ''.''
      else let hasRoot = (hd p = CHR ''/'') in
        (case dirnameScan p (length p - 1) True of
           None \<Rightarrow> (if hasRoot then ''/'' else ''.'')
         | Some e \<Rightarrow> (if hasRoot \<and> e = 1 then ''//'' else take e p)))"

text \<open>JavaScript truthiness of an optional string: defined and not empty.\<close>

fun truthy :: "string option \<Rightarrow> bool" where
  "truthy None = False"
| "truthy (Some s) = (s \<noteq> [])"

section \<open>The host\<close>

text \<open>
  What \<open>fs.Stats\<close> answers to the calls the compiler makes:
  \<open>isFile()\<close>, \<open>isDirectory()\<close>, \<open>isSymbolicLink()\<close> and \<open>size\<close>.
\<close>

datatype stats = Stats (isFile: bool) (isDirectory: bool) (isSymbolicLink: bool) (statSize: nat)

text \<open>
  Everything the module imports and does not define is a field of the host:
  Node's \<open>fs\<close>, \<open>os\<close> and \<open>path\<close> calls, \<open>process.cwd()\<close>, \<open>whichSync\<close>,
  \<open>ripGrep\<close>, \<open>shellquote.quote\<close>, and the helpers of \<open>sandbox-utils.ts\<close> and
  \<open>generate-seccomp-filter.ts\<close>.  \<open>'w\<close> is the state of the host's file system.
  A call that throws returns \<open>None\<close>; \<open>process.cwd()\<close> is one of them (it throws
  when the working directory is gone).  The theorems hold for every host.
\<close>

record 'w host =
  statSync :: "'w \<Rightarrow> string \<Rightarrow> stats option"
  lstatSync :: "'w \<Rightarrow> string \<Rightarrow> stats option"
  realpathSync :: "'w \<Rightarrow> string \<Rightarrow> string option"
  readdirSync :: "'w \<Rightarrow> string \<Rightarrow> string list option"
  unlinkSync :: "'w \<Rightarrow> string \<Rightarrow> 'w option"
  rmdirSync :: "'w \<Rightarrow> string \<Rightarrow> 'w option"
  mkdtempSync :: "'w \<Rightarrow> string \<Rightarrow> (string \<times> 'w) option"
  tmpdir :: string
  cwd :: "'w \<Rightarrow> string option"
  pathResolve :: "string \<Rightarrow> string \<Rightarrow> string"
  pathJoin :: "string \<Rightarrow> string \<Rightarrow> string"
  whichSync :: "'w \<Rightarrow> string \<Rightarrow> string option"
  ripGrep :: "'w \<Rightarrow> string list \<Rightarrow> string \<Rightarrow> string list option"
  shellquote :: "string list \<Rightarrow> string"
  normalizePathForSandbox :: "'w \<Rightarrow> string \<Rightarrow> string"
  normalizeCaseForComparison :: "string \<Rightarrow> string"
  isSymlinkOutsideBoundary :: "string \<Rightarrow> string \<Rightarrow> bool"
  DANGEROUS_FILES :: "string list"
  getDangerousDirectories :: "string list"
  generateProxyEnvVars :: "nat \<Rightarrow> nat \<Rightarrow> string list"
  generateSeccompFilter :: "'w \<Rightarrow> string option \<Rightarrow> string option \<times> 'w"
  cleanupSeccompFilter :: "'w \<Rightarrow> string \<Rightarrow> 'w option"
  getApplySeccompBinaryPath :: "'w \<Rightarrow> string option \<Rightarrow> string option"

text \<open>
  \<open>fs.existsSync\<close> follows symbolic links, as \<open>fs.statSync\<close> does: a path exists
  exactly when it can be stat'ed.
\<close>

definition existsSync :: "'w host \<Rightarrow> 'w \<Rightarrow> string \<Rightarrow> bool" where
  "existsSync h w p = (statSync h w p \<noteq> None)"

section \<open>Stage 2 of the compiler: write allows\<close>

text \<open>
  One iteration of \<open>for (const pathPattern of writeConfig.allowOnly || [])\<close> in
  \<open>generateFilesystemArgs\<close>: \<open>None\<close> is \<open>continue\<close>, \<open>Some n\<close> is the path that
  is pushed as \<open>--bind n n\<close> and onto \<open>allowedWritePaths\<close>.
\<close>

definition allowStep :: "'w host \<Rightarrow> 'w \<Rightarrow> string \<Rightarrow> string option" where
  "allowStep h w pathPattern =
     (let normalizedPath = normalizePathForSandbox h w pathPattern in
      if startsWith normalizedPath ''/dev/'' then None
      else if \<not> existsSync h w normalizedPath then None
      else (case realpathSync h w normalizedPath of
              None \<Rightarrow> None
            | Some resolvedPath \<Rightarrow>
                (let normalizedForComparison = trimTrailingSlashes normalizedPath in
                 if resolvedPath \<noteq> normalizedForComparison
                    \<and> isSymlinkOutsideBoundary h normalizedPath resolvedPath
                 then None
                 else Some normalizedPath)))"

text \<open>The loop, with its two accumulators \<open>args\<close> and \<open>allowedWritePaths\<close>.\<close>

fun allowLoop ::
  "'w host \<Rightarrow> 'w \<Rightarrow> string list \<times> string list \<Rightarrow> string list \<Rightarrow> string list \<times> string list" where
  "allowLoop h w (args, allowedWritePaths) [] = (args, allowedWritePaths)"
| "allowLoop h w (args, allowedWritePaths) (pathPattern # rest) =
     (case allowStep h w pathPattern of
        None \<Rightarrow> allowLoop h w (args, allowedWritePaths) rest
      | Some normalizedPath \<Rightarrow>
          allowLoop h w
            (args @ [''--bind'', normalizedPath, normalizedPath],
             allowedWritePaths @ [normalizedPath]) rest)"

section \<open>Path probes\<close>

text \<open>
  \<open>findSymlinkInPath\<close>: the loop over \<open>targetPath.split(path.sep)\<close> with its
  accumulator \<open>currentPath\<close>.  \<open>lstatSync\<close> throwing is the \<open>catch { break }\<close>.
\<close>

fun findSymlinkLoop ::
  "'w host \<Rightarrow> 'w \<Rightarrow> string list \<Rightarrow> string \<Rightarrow> string list \<Rightarrow> string option" where
  "findSymlinkLoop h w allowedWritePaths currentPath [] = None"
| "findSymlinkLoop h w allowedWritePaths currentPath (part # parts) =
     (if part = [] then findSymlinkLoop h w allowedWritePaths currentPath parts
      else let nextPath = currentPath @ ''/'' @ part in
        (case lstatSync h w nextPath of
           None \<Rightarrow> None
         | Some stats \<Rightarrow>
             if isSymbolicLink stats
                \<and> list_ex (\<lambda>allowedPath.
                      startsWith nextPath (allowedPath @ ''/'') \<or> nextPath = allowedPath)
                    allowedWritePaths
             then Some nextPath
             else findSymlinkLoop h w allowedWritePaths nextPath parts))"

definition findSymlinkInPath :: "'w host \<Rightarrow> 'w \<Rightarrow> string \<Rightarrow> string list \<Rightarrow> string option" where
  "findSymlinkInPath h w targetPath allowedWritePaths =
     findSymlinkLoop h w allowedWritePaths [] (splitSlash targetPath)"

fun hasFileAncestorLoop :: "'w host \<Rightarrow> 'w \<Rightarrow> string \<Rightarrow> string list \<Rightarrow> bool" where
  "hasFileAncestorLoop h w currentPath [] = False"
| "hasFileAncestorLoop h w currentPath (part # parts) =
     (if part = [] then hasFileAncestorLoop h w currentPath parts
      else let nextPath = currentPath @ ''/'' @ part in
        (case statSync h w nextPath of
           None \<Rightarrow> False
         | Some stat \<Rightarrow>
             if isFile stat \<or> isSymbolicLink stat then True
             else hasFileAncestorLoop h w nextPath parts))"

definition hasFileAncestor :: "'w host \<Rightarrow> 'w \<Rightarrow> string \<Rightarrow> bool" where
  "hasFileAncestor h w targetPath = hasFileAncestorLoop h w [] (splitSlash targetPath)"

fun firstNonExistentLoop :: "'w host \<Rightarrow> 'w \<Rightarrow> string \<Rightarrow> string list \<Rightarrow> string option" where
  "firstNonExistentLoop h w currentPath [] = None"
| "firstNonExistentLoop h w currentPath (part # parts) =
     (if part = [] then firstNonExistentLoop h w currentPath parts
      else let nextPath = currentPath @ ''/'' @ part in
        if \<not> existsSync h w nextPath then Some nextPath
        else firstNonExistentLoop h w nextPath parts)"

text \<open>When the loop runs to its end the function returns \<open>targetPath\<close>.\<close>

definition findFirstNonExistentComponent :: "'w host \<Rightarrow> 'w \<Rightarrow> string \<Rightarrow> string" where
  "findFirstNonExistentComponent h w targetPath =
     (case firstNonExistentLoop h w [] (splitSlash targetPath) of
        None \<Rightarrow> targetPath
      | Some nextPath \<Rightarrow> nextPath)"

text \<open>
  The loop \<open>while (ancestorPath !== '/' && !fs.existsSync(ancestorPath))
  ancestorPath = path.dirname(ancestorPath)\<close>.  It need not end
  (\<open>path.dirname('.')\<close> is \<open>'.'\<close>): \<open>None\<close> is the loop that runs forever.
\<close>

partial_function (option) findExistingAncestor :: "'w host \<Rightarrow> 'w \<Rightarrow> string \<Rightarrow> string option" where
  "findExistingAncestor h w ancestorPath =
     (if ancestorPath \<noteq> ''/'' \<and> \<not> existsSync h w ancestorPath
      then findExistingAncestor h w (dirname ancestorPath)
      else Some ancestorPath)"

declare findExistingAncestor.simps [code]

section \<open>Module state and results\<close>

text \<open>
  The module's globals \<open>bwrapMountPoints\<close>, \<open>generatedSeccompFilters\<close> (JavaScript
  \<open>Set\<close>s: insertion-ordered, no duplicates) and \<open>exitHandlerRegistered\<close>, with
  the host's file system.
\<close>

record 'w state =
  world :: 'w
  bwrapMountPoints :: "string list"
  generatedSeccompFilters :: "string list"
  exitHandlerRegistered :: bool

definition setAdd :: "'a \<Rightarrow> 'a list \<Rightarrow> 'a list" where
  "setAdd x xs = (if x \<in> set xs then xs else xs @ [x])"

definition setDelete :: "'a \<Rightarrow> 'a list \<Rightarrow> 'a list" where
  "setDelete x xs = filter (\<lambda>y. y \<noteq> x) xs"

definition registerExitCleanupHandler :: "'w state \<Rightarrow> 'w state" where
  "registerExitCleanupHandler s =
     (if exitHandlerRegistered s then s else s\<lparr>exitHandlerRegistered := True\<rparr>)"

datatype error =
    HttpBridgeSocketMissing string
  | SocksBridgeSocketMissing string
  | ShellNotFound string
  | ApplySeccompNotFound
  | MkdtempFailed
  | CwdFailed

text \<open>
  A call returns a value, throws, or does not return; the state is the one at
  the return or at the throw.
\<close>

datatype ('a, 'w) result =
    Returns 'a "'w state"
  | Throws error "'w state"
  | Diverges

section \<open>Stage 3 of the compiler: deny paths\<close>

definition withinAllowedPath :: "string list \<Rightarrow> string \<Rightarrow> bool" where
  "withinAllowedPath allowedWritePaths p =
     list_ex (\<lambda>allowedPath. startsWith p (allowedPath @ ''/'') \<or> p = allowedPath)
       allowedWritePaths"

definition ancestorIsWithinAllowedPath :: "string list \<Rightarrow> string \<Rightarrow> string \<Rightarrow> bool" where
  "ancestorIsWithinAllowedPath allowedWritePaths ancestorPath normalizedPath =
     list_ex (\<lambda>allowedPath.
         startsWith ancestorPath (allowedPath @ ''/'')
         \<or> ancestorPath = allowedPath
         \<or> startsWith normalizedPath (allowedPath @ ''/''))
       allowedWritePaths"

text \<open>
  The body of \<open>if (!fs.existsSync(normalizedPath)) { ... continue }\<close>, after
  the \<open>hasFileAncestor\<close> test, for the ancestor the loop has found.
\<close>

definition protectNonExistent ::
  "'w host \<Rightarrow> string list \<Rightarrow> string list \<Rightarrow> 'w state \<Rightarrow> string \<Rightarrow> string
     \<Rightarrow> (string list, 'w) result" where
  "protectNonExistent h allowedWritePaths args s normalizedPath ancestorPath =
     (if ancestorIsWithinAllowedPath allowedWritePaths ancestorPath normalizedPath then
        (let firstNonExistent = findFirstNonExistentComponent h (world s) normalizedPath in
         if firstNonExistent \<noteq> normalizedPath then
           (case mkdtempSync h (world s) (pathJoin h (tmpdir h) ''claude-empty-'') of
              None \<Rightarrow> Throws MkdtempFailed s
            | Some (emptyDir, w') \<Rightarrow>
                Returns (args @ [''--ro-bind'', emptyDir, firstNonExistent])
                  (registerExitCleanupHandler
                     (s\<lparr>world := w',
                        bwrapMountPoints := setAdd firstNonExistent (bwrapMountPoints s)\<rparr>)))
         else
           Returns (args @ [''--ro-bind'', ''/dev/null'', firstNonExistent])
             (registerExitCleanupHandler
                (s\<lparr>bwrapMountPoints := setAdd firstNonExistent (bwrapMountPoints s)\<rparr>)))
      else Returns args s)"

text \<open>One iteration of \<open>for (const pathPattern of denyPaths)\<close>, on the normalized path.\<close>

definition denyNormalized ::
  "'w host \<Rightarrow> string list \<Rightarrow> string list \<Rightarrow> 'w state \<Rightarrow> string \<Rightarrow> (string list, 'w) result" where
  "denyNormalized h allowedWritePaths args s normalizedPath =
     (if startsWith normalizedPath ''/dev/'' then Returns args s
      else (case findSymlinkInPath h (world s) normalizedPath allowedWritePaths of
              Some symlinkInPath \<Rightarrow>
                Returns (args @ [''--ro-bind'', ''/dev/null'', symlinkInPath]) s
            | None \<Rightarrow>
                if \<not> existsSync h (world s) normalizedPath then
                  (if hasFileAncestor h (world s) normalizedPath then Returns args s
                   else (case findExistingAncestor h (world s) (dirname normalizedPath) of
                           None \<Rightarrow> Diverges
                         | Some ancestorPath \<Rightarrow>
                             protectNonExistent h allowedWritePaths args s
                               normalizedPath ancestorPath))
                else if withinAllowedPath allowedWritePaths normalizedPath
                then Returns (args @ [''--ro-bind'', normalizedPath, normalizedPath]) s
                else Returns args s))"

text \<open>
  The condition under which the iteration asks the host for an empty
  directory: the branches of \<open>denyNormalized\<close> that lead to \<open>fs.mkdtempSync\<close>.
\<close>

definition needsEmptyDir :: "'w host \<Rightarrow> 'w \<Rightarrow> string list \<Rightarrow> string \<Rightarrow> bool" where
  "needsEmptyDir h w allowedWritePaths normalizedPath =
     (\<not> startsWith normalizedPath ''/dev/''
      \<and> findSymlinkInPath h w normalizedPath allowedWritePaths = None
      \<and> \<not> existsSync h w normalizedPath
      \<and> \<not> hasFileAncestor h w normalizedPath
      \<and> (case findExistingAncestor h w (dirname normalizedPath) of
            None \<Rightarrow> False
          | Some ancestorPath \<Rightarrow>
              ancestorIsWithinAllowedPath allowedWritePaths ancestorPath normalizedPath)
      \<and> findFirstNonExistentComponent h w normalizedPath \<noteq> normalizedPath)"

definition denyStep ::
  "'w host \<Rightarrow> string list \<Rightarrow> string list \<Rightarrow> 'w state \<Rightarrow> string \<Rightarrow> (string list, 'w) result" where
  "denyStep h allowedWritePaths args s pathPattern =
     denyNormalized h allowedWritePaths args s
       (normalizePathForSandbox h (world s) pathPattern)"

fun denyLoop ::
  "'w host \<Rightarrow> string list \<Rightarrow> string list \<Rightarrow> 'w state \<Rightarrow> string list \<Rightarrow> (string list, 'w) result" where
  "denyLoop h allowedWritePaths args s [] = Returns args s"
| "denyLoop h allowedWritePaths args s (pathPattern # rest) =
     (case denyStep h allowedWritePaths args s pathPattern of
        Returns args' s' \<Rightarrow> denyLoop h allowedWritePaths args' s' rest
      | Throws e s' \<Rightarrow> Throws e s'
      | Diverges \<Rightarrow> Diverges)"

section \<open>The mandatory deny list\<close>

text \<open>\<open>String(n)\<close> for a non-negative integer.\<close>

definition digitChar :: "nat \<Rightarrow> char" where
  "digitChar d = ''0123456789'' ! d"

fun showNat :: "nat \<Rightarrow> string" where
  "showNat n = (if n < 10 then [digitChar n] else showNat (n div 10) @ [digitChar (n mod 10)])"

text \<open>\<open>[...new Set(xs)]\<close>: the first occurrence of each element, in order.\<close>

definition setFromList :: "'a list \<Rightarrow> 'a list" where
  "setFromList xs = foldl (\<lambda>acc x. setAdd x acc) [] xs"

text \<open>
  The body of \<open>for (const match of matches)\<close> in \<open>linuxGetMandatoryDenyPaths\<close>:
  the inner loop over \<open>[...dangerousDirectories, '.git']\<close>, returning what the
  iteration pushes onto \<open>denyPaths\<close>.  Running off the end of the list is
  \<open>!foundDir\<close>.
\<close>

fun matchDirNames :: "'w host \<Rightarrow> string \<Rightarrow> string \<Rightarrow> string list \<Rightarrow> string list" where
  "matchDirNames h match absolutePath [] = [absolutePath]"
| "matchDirNames h match absolutePath (dirName # rest) =
     (let normalizedDirName = normalizeCaseForComparison h dirName;
          segments = splitSlash absolutePath in
      case findIndex (\<lambda>s. normalizeCaseForComparison h s = normalizedDirName) segments of
        None \<Rightarrow> matchDirNames h match absolutePath rest
      | Some dirIndex \<Rightarrow>
          if dirName = ''.git'' then
            (let gitDir = joinSlash (take (dirIndex + 1) segments) in
             if strIncludes match ''.git/hooks'' then [pathJoin h gitDir ''hooks'']
             else if strIncludes match ''.git/config'' then [pathJoin h gitDir ''config'']
             else [])
          else [joinSlash (take (dirIndex + 1) segments)])"

definition processMatch :: "'w host \<Rightarrow> string \<Rightarrow> string \<Rightarrow> string list" where
  "processMatch h workDir match =
     matchDirNames h match (pathResolve h workDir match) (getDangerousDirectories h @ [''.git''])"

definition dotGitIsDirectory :: "'w host \<Rightarrow> 'w \<Rightarrow> string \<Rightarrow> bool" where
  "dotGitIsDirectory h w workDir =
     (case statSync h w (pathResolve h workDir ''.git'') of
        None \<Rightarrow> False
      | Some stat \<Rightarrow> isDirectory stat)"

definition cwdDenyPaths :: "'w host \<Rightarrow> string \<Rightarrow> string list" where
  "cwdDenyPaths h workDir =
     map (pathResolve h workDir) (DANGEROUS_FILES h)
     @ map (pathResolve h workDir) (getDangerousDirectories h)"

definition gitLayoutDenyPaths :: "'w host \<Rightarrow> 'w \<Rightarrow> string \<Rightarrow> bool \<Rightarrow> string list" where
  "gitLayoutDenyPaths h w workDir allowGitConfig =
     (if dotGitIsDirectory h w workDir then
        [pathResolve h workDir ''.git/hooks'']
        @ (if \<not> allowGitConfig then [pathResolve h workDir ''.git/config''] else [])
      else [])"

definition iglobArgs :: "'w host \<Rightarrow> bool \<Rightarrow> string list" where
  "iglobArgs h allowGitConfig =
     concat (map (\<lambda>fileName. [''--iglob'', fileName]) (DANGEROUS_FILES h))
     @ concat (map (\<lambda>dirName. [''--iglob'', ''**/'' @ dirName @ ''/**''])
         (getDangerousDirectories h))
     @ [''--iglob'', ''**/.git/hooks/**'']
     @ (if \<not> allowGitConfig then [''--iglob'', ''**/.git/config''] else [])"

text \<open>The scan; a rejected \<open>ripGrep\<close> promise leaves \<open>matches\<close> empty.\<close>

definition scanMatches :: "'w host \<Rightarrow> 'w \<Rightarrow> string \<Rightarrow> nat \<Rightarrow> bool \<Rightarrow> string list" where
  "scanMatches h w workDir maxDepth allowGitConfig =
     (case ripGrep h w
             ([''--files'', ''--hidden'', ''--max-depth'', showNat maxDepth]
              @ iglobArgs h allowGitConfig
              @ [''-g'', ''!**/node_modules/**''])
             workDir of
        None \<Rightarrow> []
      | Some matches \<Rightarrow> matches)"

text \<open>
  The body of \<open>linuxGetMandatoryDenyPaths\<close> after \<open>const cwd = process.cwd()\<close>,
  for the working directory that the call has returned.
\<close>

definition mandatoryDenyPathsIn ::
  "'w host \<Rightarrow> 'w \<Rightarrow> string \<Rightarrow> nat \<Rightarrow> bool \<Rightarrow> string list" where
  "mandatoryDenyPathsIn h w workDir maxDepth allowGitConfig =
     setFromList
       (cwdDenyPaths h workDir
        @ gitLayoutDenyPaths h w workDir allowGitConfig
        @ concat (map (processMatch h workDir)
            (scanMatches h w workDir maxDepth allowGitConfig)))"

text \<open>
  \<open>process.cwd()\<close> is called outside every \<open>try\<close>: when it throws, the function
  throws (\<open>None\<close>), and so do its callers.
\<close>

definition linuxGetMandatoryDenyPaths ::
  "'w host \<Rightarrow> 'w \<Rightarrow> nat \<Rightarrow> bool \<Rightarrow> string list option" where
  "linuxGetMandatoryDenyPaths h w maxDepth allowGitConfig =
     (case cwd h w of
        None \<Rightarrow> None
      | Some workDir \<Rightarrow> Some (mandatoryDenyPathsIn h w workDir maxDepth allowGitConfig))"

section \<open>generateFilesystemArgs\<close>

record fsReadRestrictionConfig =
  denyOnly :: "string list"

record fsWriteRestrictionConfig =
  allowOnly :: "string list"
  denyWithinAllow :: "string list"

definition writeStage ::
  "'w host \<Rightarrow> 'w state \<Rightarrow> fsWriteRestrictionConfig \<Rightarrow> nat \<Rightarrow> bool \<Rightarrow> (string list, 'w) result" where
  "writeStage h s wc maxDepth allowGitConfig =
     (case allowLoop h (world s) ([''--ro-bind'', ''/'', ''/''], []) (allowOnly wc) of
        (args, allowedWritePaths) \<Rightarrow>
          (case linuxGetMandatoryDenyPaths h (world s) maxDepth allowGitConfig of
             None \<Rightarrow> Throws CwdFailed s
           | Some mandatoryDenyPaths \<Rightarrow>
               denyLoop h allowedWritePaths args s
                 (denyWithinAllow wc @ mandatoryDenyPaths)))"

text \<open>
  One iteration of \<open>for (const pathPattern of readDenyPaths)\<close>.  \<open>statSync\<close> is
  called on a path that exists, so its \<open>None\<close> case is never taken.
\<close>

definition readDenyStep :: "'w host \<Rightarrow> 'w \<Rightarrow> string list \<Rightarrow> string \<Rightarrow> string list" where
  "readDenyStep h w args pathPattern =
     (let normalizedPath = normalizePathForSandbox h w pathPattern in
      if \<not> existsSync h w normalizedPath then args
      else (case statSync h w normalizedPath of
              None \<Rightarrow> args
            | Some readDenyStat \<Rightarrow>
                if isDirectory readDenyStat then args @ [''--tmpfs'', normalizedPath]
                else args @ [''--ro-bind'', ''/dev/null'', normalizedPath]))"

definition readDenyPaths :: "'w host \<Rightarrow> 'w \<Rightarrow> fsReadRestrictionConfig option \<Rightarrow> string list" where
  "readDenyPaths h w rc =
     (case rc of None \<Rightarrow> [] | Some c \<Rightarrow> denyOnly c)
     @ (if existsSync h w ''/etc/ssh/ssh_config.d'' then [''/etc/ssh/ssh_config.d''] else [])"

definition readStage ::
  "'w host \<Rightarrow> 'w \<Rightarrow> string list \<Rightarrow> fsReadRestrictionConfig option \<Rightarrow> string list" where
  "readStage h w args rc = foldl (readDenyStep h w) args (readDenyPaths h w rc)"

definition generateFilesystemArgs ::
  "'w host \<Rightarrow> 'w state \<Rightarrow> fsReadRestrictionConfig option \<Rightarrow> fsWriteRestrictionConfig option
     \<Rightarrow> nat \<Rightarrow> bool \<Rightarrow> (string list, 'w) result" where
  "generateFilesystemArgs h s rc wc maxDepth allowGitConfig =
     (case (case wc of
              Some c \<Rightarrow> writeStage h s c maxDepth allowGitConfig
            | None \<Rightarrow> Returns [''--bind'', ''/'', ''/''] s) of
        Returns args s' \<Rightarrow> Returns (readStage h (world s') args rc) s'
      | Throws e s' \<Rightarrow> Throws e s'
      | Diverges \<Rightarrow> Diverges)"

section \<open>The mount-point reaper and the exit handler\<close>

text \<open>
  What one iteration of \<open>cleanupBwrapMountPoints\<close> decides for a mount point,
  from \<open>fs.statSync\<close> and \<open>fs.readdirSync\<close>; a throw of either is caught and
  leaves the mount point alone.
\<close>

datatype reapAction = ReapUnlink | ReapRmdir | ReapLeave

definition reapDecision :: "'w host \<Rightarrow> 'w \<Rightarrow> string \<Rightarrow> reapAction" where
  "reapDecision h w mountPoint =
     (case statSync h w mountPoint of
        None \<Rightarrow> ReapLeave
      | Some stat \<Rightarrow>
          if isFile stat \<and> statSize stat = 0 then ReapUnlink
          else if isDirectory stat then
            (case readdirSync h w mountPoint of
               None \<Rightarrow> ReapLeave
             | Some entries \<Rightarrow> if length entries = 0 then ReapRmdir else ReapLeave)
          else ReapLeave)"

text \<open>The iteration: \<open>unlinkSync\<close> and \<open>rmdirSync\<close> throwing is caught too.\<close>

definition cleanupStep :: "'w host \<Rightarrow> 'w \<Rightarrow> string \<Rightarrow> 'w" where
  "cleanupStep h w mountPoint =
     (case reapDecision h w mountPoint of
        ReapUnlink \<Rightarrow> (case unlinkSync h w mountPoint of None \<Rightarrow> w | Some w' \<Rightarrow> w')
      | ReapRmdir \<Rightarrow> (case rmdirSync h w mountPoint of None \<Rightarrow> w | Some w' \<Rightarrow> w')
      | ReapLeave \<Rightarrow> w)"

definition cleanupBwrapMountPoints :: "'w host \<Rightarrow> 'w state \<Rightarrow> (unit, 'w) result" where
  "cleanupBwrapMountPoints h s =
     Returns ()
       (s\<lparr>world := foldl (cleanupStep h) (world s) (bwrapMountPoints s),
          bwrapMountPoints := []\<rparr>)"

text \<open>
  The handler that \<open>registerExitCleanupHandler\<close> installs, and the process
  exit that runs it when it is installed.
\<close>

definition cleanupFilterStep :: "'w host \<Rightarrow> 'w \<Rightarrow> string \<Rightarrow> 'w" where
  "cleanupFilterStep h w filterPath =
     (case cleanupSeccompFilter h w filterPath of None \<Rightarrow> w | Some w' \<Rightarrow> w')"



section \<open>The payload and the orchestrator\<close>

text \<open>
  \<open>innerBwrapArgs\<close> of \<open>buildSandboxCommand\<close>: the argument vector of the
  nested invocation, before it is quoted.
\<close>

definition innerBindArgs :: "'w host \<Rightarrow> 'w \<Rightarrow> string list \<Rightarrow> string list" where
  "innerBindArgs h w writablePaths =
     concat (map (\<lambda>p.
         if startsWith p ''/dev/'' \<or> p = ''/dev'' then []
         else if existsSync h w p then [''--bind'', p, p]
         else [])
       writablePaths)"

definition innerBwrapArgs :: "'w host \<Rightarrow> 'w \<Rightarrow> string \<Rightarrow> string \<Rightarrow> string list \<Rightarrow> string list" where
  "innerBwrapArgs h w shellPath userCommand writablePaths =
     [''bwrap'', ''--unshare-all'', ''--share-net'', ''--ro-bind'', ''/'', ''/'']
     @ innerBindArgs h w writablePaths
     @ [''--dev'', ''/dev'', ''--seccomp'', ''3'', ''--'', shellPath, ''-c'', userCommand]"

definition socatCommands :: "string \<Rightarrow> string \<Rightarrow> string list" where
  "socatCommands httpSocket socksSocket =
     [''socat TCP-LISTEN:3128,fork,reuseaddr UNIX-CONNECT:'' @ httpSocket
        @ '' >/dev/null 2>&1 &'',
      ''socat TCP-LISTEN:1080,fork,reuseaddr UNIX-CONNECT:'' @ socksSocket
        @ '' >/dev/null 2>&1 &'',
      ''trap '' @ [CHR 0x22] @ ''kill %1 %2 2>/dev/null; exit'' @ [CHR 0x22] @ '' EXIT'']"

definition buildSandboxCommand ::
  "'w host \<Rightarrow> 'w \<Rightarrow> string \<Rightarrow> string \<Rightarrow> string \<Rightarrow> string option \<Rightarrow> string \<Rightarrow> string list
     \<Rightarrow> string" where
  "buildSandboxCommand h w httpSocket socksSocket userCommand seccompFilterPath shell
       writablePaths =
     (let shellPath = (if shell = [] then ''bash'' else shell) in
      case seccompFilterPath of
        Some filterPath \<Rightarrow>
          if filterPath \<noteq> [] then
            (let innerBwrapCmd =
                   shellquote h (innerBwrapArgs h w shellPath userCommand writablePaths);
                 innerScript =
                   joinLines
                     (socatCommands httpSocket socksSocket
                      @ [''sleep 0.1'', ''exec 3< '' @ shellquote h [filterPath], innerBwrapCmd])
             in shellPath @ '' -c '' @ shellquote h [innerScript])
          else
            shellPath @ '' -c ''
              @ shellquote h
                  [joinLines (socatCommands httpSocket socksSocket
                              @ [''eval '' @ shellquote h [userCommand]])]
      | None \<Rightarrow>
          shellPath @ '' -c ''
            @ shellquote h
                [joinLines (socatCommands httpSocket socksSocket
                            @ [''eval '' @ shellquote h [userCommand]])])"

text \<open>
  \<open>LinuxSandboxParams\<close>.  \<open>ripgrepConfig\<close> and \<open>abortSignal\<close> only reach
  \<open>ripGrep\<close>, which is the host's; \<open>seccompConfig\<close> is its two paths.
\<close>

record params =
  command :: string
  needsNetworkRestriction :: bool
  httpSocketPath :: "string option"
  socksSocketPath :: "string option"
  httpProxyPort :: "nat option"
  socksProxyPort :: "nat option"
  readConfig :: "fsReadRestrictionConfig option"
  writeConfig :: "fsWriteRestrictionConfig option"
  enableWeakerNestedSandbox :: bool
  allowAllUnixSockets :: bool
  binShell :: "string option"
  mandatoryDenySearchDepth :: "nat option"
  allowGitConfig :: bool
  seccompBpfPath :: "string option"
  seccompApplyPath :: "string option"

definition DEFAULT_MANDATORY_DENY_SEARCH_DEPTH :: nat where
  "DEFAULT_MANDATORY_DENY_SEARCH_DEPTH = 3"

definition hasReadRestrictions :: "params \<Rightarrow> bool" where
  "hasReadRestrictions ps =
     (case readConfig ps of None \<Rightarrow> False | Some rc \<Rightarrow> length (denyOnly rc) > 0)"

definition hasWriteRestrictions :: "params \<Rightarrow> bool" where
  "hasWriteRestrictions ps = (writeConfig ps \<noteq> None)"

definition needsSandboxing :: "params \<Rightarrow> bool" where
  "needsSandboxing ps =
     (\<not> (\<not> needsNetworkRestriction ps \<and> \<not> hasReadRestrictions ps \<and> \<not> hasWriteRestrictions ps))"

text \<open>
  The seccomp section of the \<open>try\<close> block: the value of \<open>seccompFilterPath\<close>
  after it, and the state.
\<close>

definition seccompSection :: "'w host \<Rightarrow> 'w state \<Rightarrow> params \<Rightarrow> string option \<times> 'w state" where
  "seccompSection h s ps =
     (if \<not> allowAllUnixSockets ps then
        (case generateSeccompFilter h (world s) (seccompBpfPath ps) of
           (generated, w1) \<Rightarrow>
             (let s1 = s\<lparr>world := w1\<rparr>;
                  applySeccompBinary = getApplySeccompBinaryPath h w1 (seccompApplyPath ps) in
              if \<not> truthy generated \<or> \<not> truthy applySeccompBinary then (None, s1)
              else (case generated of
                      None \<Rightarrow> (None, s1)
                    | Some filterPath \<Rightarrow>
                        if \<not> strIncludes filterPath ''/vendor/seccomp/'' then
                          (Some filterPath,
                           registerExitCleanupHandler
                             (s1\<lparr>generatedSeccompFilters :=
                                   setAdd filterPath (generatedSeccompFilters s1)\<rparr>))
                        else (Some filterPath, s1))))
      else (None, s))"

text \<open>\<open>env.indexOf('=')\<close>, \<open>env.slice(0, firstEq)\<close> and \<open>env.slice(firstEq + 1)\<close>.\<close>

definition setenvArgs :: "string \<Rightarrow> string list" where
  "setenvArgs env =
     (case findIndex (\<lambda>c. c = CHR ''='') env of
        None \<Rightarrow> [''--setenv'', butlast env, env]
      | Some firstEq \<Rightarrow> [''--setenv'', take firstEq env, drop (firstEq + 1) env])"

definition bridgeRequested :: "params \<Rightarrow> bool" where
  "bridgeRequested ps = (truthy (httpSocketPath ps) \<and> truthy (socksSocketPath ps))"

text \<open>The network section: the arguments it pushes, or the error it throws.\<close>

definition networkSection :: "'w host \<Rightarrow> 'w \<Rightarrow> params \<Rightarrow> error + string list" where
  "networkSection h w ps =
     (if needsNetworkRestriction ps then
        (case (httpSocketPath ps, socksSocketPath ps) of
           (Some httpSocket, Some socksSocket) \<Rightarrow>
             if httpSocket \<noteq> [] \<and> socksSocket \<noteq> [] then
               (if \<not> existsSync h w httpSocket then Inl (HttpBridgeSocketMissing httpSocket)
                else if \<not> existsSync h w socksSocket
                then Inl (SocksBridgeSocketMissing socksSocket)
                else Inr ([''--unshare-net'',
                           ''--bind'', httpSocket, httpSocket,
                           ''--bind'', socksSocket, socksSocket]
                          @ concat (map setenvArgs (generateProxyEnvVars h 3128 1080))
                          @ (case httpProxyPort ps of
                               None \<Rightarrow> []
                             | Some port \<Rightarrow>
                                 [''--setenv'', ''CLAUDE_CODE_HOST_HTTP_PROXY_PORT'', showNat port])
                          @ (case socksProxyPort ps of
                               None \<Rightarrow> []
                             | Some port \<Rightarrow>
                                 [''--setenv'', ''CLAUDE_CODE_HOST_SOCKS_PROXY_PORT'',
                                  showNat port])))
             else Inr [''--unshare-net'']
         | _ \<Rightarrow> Inr [''--unshare-net''])
      else Inr [])"

text \<open>The command section: the payload pushed after \<open>'--', shell, '-c'\<close>.\<close>

definition payload :: "'w host \<Rightarrow> 'w \<Rightarrow> params \<Rightarrow> string option \<Rightarrow> string \<Rightarrow> error + string" where
  "payload h w ps seccompFilterPath shell =
     (if needsNetworkRestriction ps \<and> bridgeRequested ps then
        (case (httpSocketPath ps, socksSocketPath ps) of
           (Some httpSocket, Some socksSocket) \<Rightarrow>
             (let writablePaths =
                    filter (existsSync h w)
                      (map (normalizePathForSandbox h w)
                         (case writeConfig ps of None \<Rightarrow> [] | Some wc \<Rightarrow> allowOnly wc))
              in Inr (buildSandboxCommand h w httpSocket socksSocket (command ps)
                        seccompFilterPath shell writablePaths))
         | _ \<Rightarrow> Inr (command ps))
      else if truthy seccompFilterPath then
        (case seccompFilterPath of
           None \<Rightarrow> Inr (command ps)
         | Some filterPath \<Rightarrow>
             (case getApplySeccompBinaryPath h w (seccompApplyPath ps) of
                None \<Rightarrow> Inl ApplySeccompNotFound
              | Some applySeccompBinary \<Rightarrow>
                  if applySeccompBinary = [] then Inl ApplySeccompNotFound
                  else Inr (shellquote h
                              [applySeccompBinary, filterPath, shell, ''-c'', command ps])))
      else Inr (command ps))"

text \<open>
  \<open>binShell || 'bash'\<close>, and the parameter \<open>mandatoryDenySearchDepth\<close> with its
  default.
\<close>

definition shellName :: "params \<Rightarrow> string" where
  "shellName ps =
     (case binShell ps of
        None \<Rightarrow> ''bash''
      | Some b \<Rightarrow> if b = [] then ''bash'' else b)"

definition searchDepth :: "params \<Rightarrow> nat" where
  "searchDepth ps =
     (case mandatoryDenySearchDepth ps of
        None \<Rightarrow> DEFAULT_MANDATORY_DENY_SEARCH_DEPTH
      | Some d \<Rightarrow> d)"

text \<open>The \<open>try\<close> block after the seccomp section.\<close>

definition wrapTry :: "'w host \<Rightarrow> 'w state \<Rightarrow> params \<Rightarrow> string option \<Rightarrow> (string, 'w) result" where
  "wrapTry h s ps seccompFilterPath =
     (case networkSection h (world s) ps of
        Inl e \<Rightarrow> Throws e s
      | Inr netArgs \<Rightarrow>
          (case generateFilesystemArgs h s (readConfig ps) (writeConfig ps)
                  (searchDepth ps) (allowGitConfig ps) of
             Diverges \<Rightarrow> Diverges
           | Throws e s' \<Rightarrow> Throws e s'
           | Returns fsArgs s' \<Rightarrow>
               (case whichSync h (world s') (shellName ps) of
                  None \<Rightarrow> Throws (ShellNotFound (shellName ps)) s'
                | Some shell \<Rightarrow>
                    if shell = [] then Throws (ShellNotFound (shellName ps)) s'
                    else
                      (case payload h (world s') ps seccompFilterPath shell of
                         Inl e \<Rightarrow> Throws e s'
                       | Inr sandboxCommand \<Rightarrow>
                           Returns
                             (shellquote h
                                ([''bwrap'', ''--new-session'', ''--die-with-parent'']
                                 @ netArgs @ fsArgs
                                 @ [''--dev'', ''/dev'', ''--unshare-pid'']
                                 @ (if \<not> enableWeakerNestedSandbox ps
                                    then [''--proc'', ''/proc''] else [])
                                 @ [''--'', shell, ''-c'', sandboxCommand]))
                             s'))))"

text \<open>The \<open>catch\<close> block: the filter is unregistered and removed, the error rethrown.\<close>

definition catchCleanup :: "'w host \<Rightarrow> 'w state \<Rightarrow> string option \<Rightarrow> 'w state" where
  "catchCleanup h s seccompFilterPath =
     (case seccompFilterPath of
        None \<Rightarrow> s
      | Some filterPath \<Rightarrow>
          if filterPath \<noteq> [] \<and> \<not> strIncludes filterPath ''/vendor/seccomp/'' then
            s\<lparr>generatedSeccompFilters := setDelete filterPath (generatedSeccompFilters s),
              world := cleanupFilterStep h (world s) filterPath\<rparr>
          else s)"

definition wrapCommandWithSandboxLinux ::
  "'w host \<Rightarrow> 'w state \<Rightarrow> params \<Rightarrow> (string, 'w) result" where
  "wrapCommandWithSandboxLinux h s ps =
     (if \<not> needsNetworkRestriction ps \<and> \<not> hasReadRestrictions ps \<and> \<not> hasWriteRestrictions ps
      then Returns (command ps) s
      else (case seccompSection h s ps of
              (seccompFilterPath, s1) \<Rightarrow>
                (case wrapTry h s1 ps seccompFilterPath of
                   Throws e s2 \<Rightarrow> Throws e (catchCleanup h s2 seccompFilterPath)
                 | Returns wrappedCommand s2 \<Rightarrow> Returns wrappedCommand s2
                 | Diverges \<Rightarrow> Diverges)))"

section \<open>The macOS profile: rename blocking for read-denied paths\<close>

text \<open>
  Modelled from the spec: \<open>macos-sandbox-utils.ts\<close> is not among the sources, so
  the read-deny rule family of the macOS policy compiler follows sections 3 and
  4.4 of the specification.  A glob is a path with an unescaped \<open>*\<close> or \<open>?\<close>;
  its literal base is the longest prefix with no wildcard.  A read-denied path
  gives a \<open>file-read*\<close> deny rule, a \<open>file-write-unlink\<close> deny rule on itself, and
  a \<open>file-write-unlink\<close> deny rule on every ancestor directory up to \<open>/\<close>; for a
  glob the chain starts at the directory of its literal base.
\<close>

datatype sbFilter = LiteralPath string | SubPath string | GlobPattern string

datatype sbRule = Deny string sbFilter

fun hasWildcard :: "string \<Rightarrow> bool" where
  "hasWildcard [] = False"
| "hasWildcard [c] = (c = CHR ''*'' \<or> c = CHR ''?'')"
| "hasWildcard (c # d # cs) =
     (if c = CHR 0x5C then hasWildcard cs
      else c = CHR ''*'' \<or> c = CHR ''?'' \<or> hasWildcard (d # cs))"

fun globBase :: "string \<Rightarrow> string" where
  "globBase [] = []"
| "globBase [c] = (if c = CHR ''*'' \<or> c = CHR ''?'' then [] else [c])"
| "globBase (c # d # cs) =
     (if c = CHR 0x5C then c # d # globBase cs
      else if c = CHR ''*'' \<or> c = CHR ''?'' then []
      else c # globBase (d # cs))"

text \<open>The directory of a literal base: the base itself when it ends in \<open>/\<close>.\<close>

definition globBaseDir :: "string \<Rightarrow> string" where
  "globBaseDir pattern =
     (let base = globBase pattern in
      if base \<noteq> [] \<and> last base = CHR ''/'' \<and> trimTrailingSlashes base \<noteq> []
      then trimTrailingSlashes base
      else dirname base)"

text \<open>The ancestor directories of a path, nearest first, ending with \<open>/\<close>.\<close>

fun ancestorDirectories :: "string \<Rightarrow> string list" where
  "ancestorDirectories p =
     (if p = ''/'' \<or> \<not> length (dirname p) < length p then []
      else dirname p # ancestorDirectories (dirname p))"

declare ancestorDirectories.simps [simp del]

definition readDenyRules :: "string \<Rightarrow> sbRule list" where
  "readDenyRules d =
     (if hasWildcard d then
        [Deny ''file-read*'' (GlobPattern d), Deny ''file-write-unlink'' (GlobPattern d),
         Deny ''file-write-unlink'' (LiteralPath (globBaseDir d))]
        @ map (\<lambda>a. Deny ''file-write-unlink'' (LiteralPath a))
            (ancestorDirectories (globBaseDir d))
      else
        [Deny ''file-read*'' (SubPath d), Deny ''file-write-unlink'' (SubPath d)]
        @ map (\<lambda>a. Deny ''file-write-unlink'' (LiteralPath a)) (ancestorDirectories d))"

definition macReadDenyProfile :: "string list \<Rightarrow> sbRule list" where
  "macReadDenyProfile denyPaths = concat (map readDenyRules denyPaths)"

text \<open>The path a rename-blocking chain starts from.\<close>

definition renameChainStart :: "string \<Rightarrow> string" where
  "renameChainStart d = (if hasWildcard d then globBaseDir d else d)"

section \<open>A small concrete host\<close>

text \<open>
  The theorems are about every host.  Their instances are evaluated on this
  one: a file system that is a table from absolute paths to files (with a
  size), directories (with their entries) and symbolic links (with their
  target); \<open>stat\<close> follows a link in the last component and accepts a trailing
  slash on a directory, \<open>lstat\<close> does neither.  Paths are absolute, so
  \<open>path.resolve\<close> and \<open>path.join\<close> put a slash between their arguments, and
  \<open>normalizePathForSandbox\<close> returns its argument.
\<close>

datatype toyNode = ToyFile nat | ToyDir "string list" | ToyLink string

type_synonym toyWorld = "(string \<times> toyNode) list"

fun toyStats :: "toyNode \<Rightarrow> stats" where
  "toyStats (ToyFile n) = Stats True False False n"
| "toyStats (ToyDir entries) = Stats False True False 4096"
| "toyStats (ToyLink target) = Stats False False True (length target)"

definition toyKey :: "string \<Rightarrow> string" where
  "toyKey p = (if trimTrailingSlashes p = [] then ''/'' else trimTrailingSlashes p)"

definition toyResolve :: "toyWorld \<Rightarrow> string \<Rightarrow> (string \<times> toyNode) option" where
  "toyResolve w p =
     (case map_of w (toyKey p) of
        None \<Rightarrow> None
      | Some (ToyLink target) \<Rightarrow>
          (case map_of w target of
             None \<Rightarrow> None
           | Some (ToyLink t) \<Rightarrow> None
           | Some node \<Rightarrow> Some (target, node))
      | Some (ToyFile n) \<Rightarrow> (if toyKey p = p then Some (p, ToyFile n) else None)
      | Some (ToyDir entries) \<Rightarrow> Some (toyKey p, ToyDir entries))"

definition toyRemove :: "toyWorld \<Rightarrow> string \<Rightarrow> toyWorld" where
  "toyRemove w p = filter (\<lambda>e. fst e \<noteq> p) w"

definition toyUnlink :: "toyWorld \<Rightarrow> string \<Rightarrow> toyWorld option" where
  "toyUnlink w p =
     (case map_of w p of
        Some (ToyFile n) \<Rightarrow> Some (toyRemove w p)
      | Some (ToyLink t) \<Rightarrow> Some (toyRemove w p)
      | _ \<Rightarrow> None)"

definition toyRmdir :: "toyWorld \<Rightarrow> string \<Rightarrow> toyWorld option" where
  "toyRmdir w p =
     (case map_of w p of
        Some (ToyDir entries) \<Rightarrow> (if entries = [] then Some (toyRemove w p) else None)
      | _ \<Rightarrow> None)"

definition toyMkdtemp :: "toyWorld \<Rightarrow> string \<Rightarrow> (string \<times> toyWorld) option" where
  "toyMkdtemp w prefix =
     (let t = prefix @ ''Ab12Cd'' in
      if map_of w t = None then Some (t, w @ [(t, ToyDir [])]) else None)"

fun joinSpaces :: "string list \<Rightarrow> string" where
  "joinSpaces [] = []"
| "joinSpaces [x] = x"
| "joinSpaces (x # y # ys) = x @ '' '' @ joinSpaces (y # ys)"

definition toyOutsideBoundary :: "string \<Rightarrow> string \<Rightarrow> bool" where
  "toyOutsideBoundary original resolved =
     (resolved \<noteq> original \<and> \<not> startsWith resolved (original @ ''/''))"

definition toyHost :: "toyWorld host" where
  "toyHost =
     \<lparr> statSync = (\<lambda>w p. map_option (\<lambda>r. toyStats (snd r)) (toyResolve w p)),
       lstatSync = (\<lambda>w p. map_option toyStats (map_of w p)),
       realpathSync = (\<lambda>w p. map_option fst (toyResolve w p)),
       readdirSync = (\<lambda>w p. case toyResolve w p of
                                Some (q, ToyDir entries) \<Rightarrow> Some entries
                              | _ \<Rightarrow> None),
       unlinkSync = toyUnlink,
       rmdirSync = toyRmdir,
       mkdtempSync = toyMkdtemp,
       tmpdir = ''/tmp'',
       cwd = (\<lambda>w. Some ''/repo''),
       pathResolve = (\<lambda>base p. base @ ''/'' @ p),
       pathJoin = (\<lambda>a b. a @ ''/'' @ b),
       whichSync = (\<lambda>w name. Some (''/usr/bin/'' @ name)),
       ripGrep = (\<lambda>w args dir. Some []),
       shellquote = joinSpaces,
       normalizePathForSandbox = (\<lambda>w p. p),
       normalizeCaseForComparison = (\<lambda>s. s),
       isSymlinkOutsideBoundary = toyOutsideBoundary,
       DANGEROUS_FILES = [''.bashrc'', ''.gitconfig''],
       getDangerousDirectories = [''.vscode'', ''.claude/commands''],
       generateProxyEnvVars = (\<lambda>httpPort socksPort. [''HTTP_PROXY=http://localhost:3128'']),
       generateSeccompFilter = (\<lambda>w bpfPath. (Some ''/tmp/claude-seccomp.bpf'', w @ [(''/tmp/claude-seccomp.bpf'', ToyFile 104)])),
       cleanupSeccompFilter = toyUnlink,
       getApplySeccompBinaryPath = (\<lambda>w applyPath. Some ''/opt/srt/vendor/seccomp/x64/apply-seccomp'') \<rparr>"

definition initialState :: "'w \<Rightarrow> 'w state" where
  "initialState w =
     \<lparr> world = w, bwrapMountPoints = [], generatedSeccompFilters = [],
       exitHandlerRegistered = False \<rparr>"

section \<open>Scenarios\<close>


text \<open>
  Scenario S2 of the specification: \<open>/t/user_area/evil\<close> is a symbolic link to
  \<open>/t/protected\<close>.
\<close>

definition worldEvil :: toyWorld where
  "worldEvil =
     [(''/t'', ToyDir [''user_area'', ''protected'']),
      (''/t/user_area'', ToyDir [''evil'']),
      (''/t/protected'', ToyDir [''secret.txt'']),
      (''/t/protected/secret.txt'', ToyFile 11),
      (''/t/user_area/evil'', ToyLink ''/t/protected'')]"


text \<open>An empty writable root \<open>/w\<close>.\<close>

definition worldPlain :: toyWorld where
  "worldPlain = [(''/w'', ToyDir []), (''/tmp'', ToyDir [])]"

text \<open>
  A registered mount point that is, by now, a symbolic link to an empty file.
\<close>

definition worldLinkedMount :: toyWorld where
  "worldLinkedMount =
     [(''/w'', ToyDir [''.bashrc'', ''empty'']),
      (''/w/empty'', ToyFile 0),
      (''/w/.bashrc'', ToyLink ''/w/empty'')]"

text \<open>
  The parameters of the unit tests: \<open>echo hello\<close> with an empty read deny list
  and nothing else set.
\<close>

definition baseParams :: params where
  "baseParams =
     \<lparr> command = ''echo hello'',
       needsNetworkRestriction = False,
       httpSocketPath = None,
       socksSocketPath = None,
       httpProxyPort = None,
       socksProxyPort = None,
       readConfig = Some \<lparr> denyOnly = [] \<rparr>,
       writeConfig = None,
       enableWeakerNestedSandbox = False,
       allowAllUnixSockets = False,
       binShell = None,
       mandatoryDenySearchDepth = None,
       allowGitConfig = False,
       seccompBpfPath = None,
       seccompApplyPath = None \<rparr>"

text \<open>
  Hosts that lack something: the seccomp artifacts (neither a filter nor the
  applicator is found), the shell, or the permission to create a directory
  under the temporary directory.
\<close>

definition hostNoSeccomp :: "toyWorld host" where
  "hostNoSeccomp =
     toyHost\<lparr> generateSeccompFilter := (\<lambda>w bpfPath. (None, w)),
              getApplySeccompBinaryPath := (\<lambda>w applyPath. None) \<rparr>"

definition hostNoShell :: "toyWorld host" where
  "hostNoShell = toyHost\<lparr> whichSync := (\<lambda>w name. None) \<rparr>"

definition hostNoTmp :: "toyWorld host" where
  "hostNoTmp = toyHost\<lparr> mkdtempSync := (\<lambda>w prefix. None) \<rparr>"

definition writeParams :: "string list \<Rightarrow> string list \<Rightarrow> params" where
  "writeParams allow deny =
     baseParams\<lparr> writeConfig := Some \<lparr> allowOnly = allow, denyWithinAllow = deny \<rparr> \<rparr>"

text \<open>
  The paths that the nested invocation binds writable: the normalized
  \<open>allowOnly\<close> entries that exist and are neither \<open>/dev\<close> nor under it.
\<close>

definition innerRoots :: "'w host \<Rightarrow> 'w \<Rightarrow> string list \<Rightarrow> string list" where
  "innerRoots h w allow =
     filter (\<lambda>p. \<not> (startsWith p ''/dev/'' \<or> p = ''/dev'') \<and> existsSync h w p)
       (map (normalizePathForSandbox h w) allow)"

text \<open>Scenario S2 with the two sockets of a network bridge.\<close>

definition worldEvilBridge :: toyWorld where
  "worldEvilBridge =
     worldEvil @ [(''/tmp'', ToyDir []),
                  (''/tmp/http.sock'', ToyFile 0),
                  (''/tmp/socks.sock'', ToyFile 0)]"

definition bridgeParams :: "string list \<Rightarrow> params" where
  "bridgeParams allow =
     (writeParams allow [])
       \<lparr> needsNetworkRestriction := True,
         httpSocketPath := Some ''/tmp/http.sock'',
         socksSocketPath := Some ''/tmp/socks.sock'' \<rparr>"






section \<open>Registry discipline\<close>






text \<open>
  A repository \<open>/repo\<close> with a nested repository \<open>/repo/sub\<close> whose \<open>hooks\<close>
  directory is empty, and the host on which the scan of this tree, which lists
  files, reports the one file \<open>sub/.git/config\<close> when it is asked for
  \<open>**/.git/config\<close>.
\<close>

definition worldRepo :: toyWorld where
  "worldRepo =
     [(''/repo'', ToyDir [''.git'', ''sub'']),
      (''/repo/.git'', ToyDir []),
      (''/repo/sub'', ToyDir [''.git'']),
      (''/repo/sub/.git'', ToyDir [''config'', ''hooks'']),
      (''/repo/sub/.git/config'', ToyFile 92),
      (''/repo/sub/.git/hooks'', ToyDir [])]"

definition hostNested :: "toyWorld host" where
  "hostNested =
     toyHost\<lparr> ripGrep := (\<lambda>w args dir.
                if ''**/.git/config'' \<in> set args then Some [''sub/.git/config'']
                else Some []) \<rparr>"

text \<open>A host whose working directory is gone.\<close>

definition hostNoCwd :: "toyWorld host" where
  "hostNoCwd = toyHost\<lparr> cwd := (\<lambda>w. None) \<rparr>"

text \<open>
  A host whose normalizer resolves a relative path against the working
  directory, as \<open>path.resolve\<close> does, so that every normalized path is
  absolute.
\<close>

definition hostResolve :: "toyWorld host" where
  "hostResolve =
     toyHost\<lparr> normalizePathForSandbox :=
                (\<lambda>w p. if p \<noteq> [] \<and> hd p = CHR ''/'' then p else ''/repo/'' @ p) \<rparr>"

section \<open>The write-allow stage\<close>



section \<open>C1: scope-widening write-allow paths\<close>

text \<open>
  Claim C1: for a write-allow path whose canonical resolution differs from
  it and widens its scope, the compiler emits no \<open>--bind\<close> directive for the
  path and does not record it as an allowed-write root.  The code does not
  keep to it when a network bridge and a syscall filter are in play.  In
  scenario S2 with the legitimate root \<open>/t/user_area\<close> listed first, the link
  \<open>/t/user_area/evil\<close> resolves to \<open>/t/protected\<close>, which widens its scope;
  the outer stage skips it (its directives and its roots are those of
  \<open>/t/user_area\<close> alone), and the command that \<open>wrapCommandWithSandboxLinux\<close>
  returns holds \<open>--bind /t/user_area/evil /t/user_area/evil\<close> in its nested
  invocation.
\<close>

theorem C1_widening_path_bound_in_nested_stage:
  "realpathSync toyHost worldEvilBridge
       (normalizePathForSandbox toyHost worldEvilBridge ''/t/user_area/evil'')
     = Some ''/t/protected''
   \<and> ''/t/protected''
       \<noteq> trimTrailingSlashes (normalizePathForSandbox toyHost worldEvilBridge ''/t/user_area/evil'')
   \<and> isSymlinkOutsideBoundary toyHost
         (normalizePathForSandbox toyHost worldEvilBridge ''/t/user_area/evil'') ''/t/protected''
   \<and> allowLoop toyHost worldEvilBridge ([''--ro-bind'', ''/'', ''/''], [])
         [''/t/user_area'', ''/t/user_area/evil'']
       = ([''--ro-bind'', ''/'', ''/'', ''--bind'', ''/t/user_area'', ''/t/user_area''],
          [''/t/user_area''])
   \<and> wrapCommandWithSandboxLinux toyHost (initialState worldEvilBridge)
        (bridgeParams [''/t/user_area'', ''/t/user_area/evil''])
      = Returns
          (joinSpaces
             [''bwrap'', ''--new-session'', ''--die-with-parent'', ''--unshare-net'',
              ''--bind'', ''/tmp/http.sock'', ''/tmp/http.sock'',
              ''--bind'', ''/tmp/socks.sock'', ''/tmp/socks.sock'',
              ''--setenv'', ''HTTP_PROXY'', ''http://localhost:3128'',
              ''--ro-bind'', ''/'', ''/'',
              ''--bind'', ''/t/user_area'', ''/t/user_area'',
              ''--dev'', ''/dev'', ''--unshare-pid'', ''--proc'', ''/proc'',
              ''--'', ''/usr/bin/bash'', ''-c'',
              ''/usr/bin/bash -c ''
              @ joinLines
                  (socatCommands ''/tmp/http.sock'' ''/tmp/socks.sock''
                   @ [''sleep 0.1'', ''exec 3< /tmp/claude-seccomp.bpf'',
                      joinSpaces
                        [''bwrap'', ''--unshare-all'', ''--share-net'', ''--ro-bind'', ''/'', ''/'',
                         ''--bind'', ''/t/user_area'', ''/t/user_area'',
                         ''--bind'', ''/t/user_area/evil'', ''/t/user_area/evil'',
                         ''--dev'', ''/dev'', ''--seccomp'', ''3'', ''--'', ''/usr/bin/bash'',
                         ''-c'', ''echo hello'']])])
          \<lparr> world = worldEvilBridge @ [(''/tmp/claude-seccomp.bpf'', ToyFile 104)],
            bwrapMountPoints = [],
            generatedSeccompFilters = [''/tmp/claude-seccomp.bpf''],
            exitHandlerRegistered = True \<rparr>"
proof -
  have a: "realpathSync toyHost worldEvilBridge
       (normalizePathForSandbox toyHost worldEvilBridge ''/t/user_area/evil'')
     = Some ''/t/protected''" by code_simp
  have b: "''/t/protected''
       \<noteq> trimTrailingSlashes (normalizePathForSandbox toyHost worldEvilBridge ''/t/user_area/evil'')"
    by code_simp
  have c: "isSymlinkOutsideBoundary toyHost
         (normalizePathForSandbox toyHost worldEvilBridge ''/t/user_area/evil'') ''/t/protected''"
    by code_simp
  have d: "allowLoop toyHost worldEvilBridge ([''--ro-bind'', ''/'', ''/''], [])
         [''/t/user_area'', ''/t/user_area/evil'']
       = ([''--ro-bind'', ''/'', ''/'', ''--bind'', ''/t/user_area'', ''/t/user_area''],
          [''/t/user_area''])" by code_simp
  have e: "wrapCommandWithSandboxLinux toyHost (initialState worldEvilBridge)
        (bridgeParams [''/t/user_area'', ''/t/user_area/evil''])
      = Returns
          (joinSpaces
             [''bwrap'', ''--new-session'', ''--die-with-parent'', ''--unshare-net'',
              ''--bind'', ''/tmp/http.sock'', ''/tmp/http.sock'',
              ''--bind'', ''/tmp/socks.sock'', ''/tmp/socks.sock'',
              ''--setenv'', ''HTTP_PROXY'', ''http://localhost:3128'',
              ''--ro-bind'', ''/'', ''/'',
              ''--bind'', ''/t/user_area'', ''/t/user_area'',
              ''--dev'', ''/dev'', ''--unshare-pid'', ''--proc'', ''/proc'',
              ''--'', ''/usr/bin/bash'', ''-c'',
              ''/usr/bin/bash -c ''
              @ joinLines
                  (socatCommands ''/tmp/http.sock'' ''/tmp/socks.sock''
                   @ [''sleep 0.1'', ''exec 3< /tmp/claude-seccomp.bpf'',
                      joinSpaces
                        [''bwrap'', ''--unshare-all'', ''--share-net'', ''--ro-bind'', ''/'', ''/'',
                         ''--bind'', ''/t/user_area'', ''/t/user_area'',
                         ''--bind'', ''/t/user_area/evil'', ''/t/user_area/evil'',
                         ''--dev'', ''/dev'', ''--seccomp'', ''3'', ''--'', ''/usr/bin/bash'',
                         ''-c'', ''echo hello'']])])
          \<lparr> world = worldEvilBridge @ [(''/tmp/claude-seccomp.bpf'', ToyFile 104)],
            bwrapMountPoints = [],
            generatedSeccompFilters = [''/tmp/claude-seccomp.bpf''],
            exitHandlerRegistered = True \<rparr>"
    by code_simp
  show ?thesis using a b c d e by (intro conjI)
qed

section \<open>C3: artifacts for non-existent deny paths\<close>

lemma dirnameScan_bounds:
  "dirnameScan p i m = Some e \<Longrightarrow> 1 \<le> e \<and> e \<le> i \<and> (m \<longrightarrow> e < i)"
proof (induction i arbitrary: m)
  case 0
  then show ?case by simp
next
  case (Suc i)
  show ?case
  proof (cases "p ! Suc i = CHR ''/''")
    case True
    show ?thesis
    proof (cases m)
      case True
      with \<open>p ! Suc i = CHR ''/''\<close> Suc.prems have "dirnameScan p i True = Some e" by simp
      from Suc.IH [OF this] show ?thesis by simp
    next
      case False
      with \<open>p ! Suc i = CHR ''/''\<close> Suc.prems show ?thesis by simp
    qed
  next
    case False
    with Suc.prems have "dirnameScan p i False = Some e" by simp
    from Suc.IH [OF this] show ?thesis by simp
  qed
qed

lemma dirname_absolute:
  assumes "p \<noteq> []" and "hd p = CHR ''/''"
  shows "dirname p \<noteq> [] \<and> hd (dirname p) = CHR ''/''"
proof (cases "dirnameScan p (length p - 1) True")
  case None
  with assms show ?thesis by (simp add: dirname_def)
next
  case (Some e)
  from dirnameScan_bounds [OF Some] have e: "1 \<le> e" "e < length p - 1" by simp_all
  then have "take e p \<noteq> []" using assms by (cases p) auto
  moreover have "hd (take e p) = hd p" using e assms by (cases p; cases e) auto
  ultimately show ?thesis using Some assms by (simp add: dirname_def)
qed

lemma dirname_shorter:
  assumes "p \<noteq> []" and "hd p = CHR ''/''" and "p \<noteq> ''/''"
  shows "length (dirname p) < length p"
proof -
  from assms have len: "2 \<le> length p" by (cases p; cases "tl p") auto
  show ?thesis
  proof (cases "dirnameScan p (length p - 1) True")
    case None
    with assms len show ?thesis by (simp add: dirname_def)
  next
    case (Some e)
    from dirnameScan_bounds [OF Some] have e: "1 \<le> e" "e < length p - 1" by simp_all
    then show ?thesis using Some assms by (auto simp: dirname_def)
  qed
qed

lemma findExistingAncestor_terminates:
  "p \<noteq> [] \<Longrightarrow> hd p = CHR ''/'' \<Longrightarrow> \<exists>anc. findExistingAncestor h w p = Some anc"
proof (induction p rule: length_induct)
  case (1 p)
  show ?case
  proof (cases "p \<noteq> ''/'' \<and> \<not> existsSync h w p")
    case False
    then show ?thesis by (subst findExistingAncestor.simps) auto
  next
    case True
    then have "length (dirname p) < length p"
      using dirname_shorter "1.prems" by blast
    moreover have "dirname p \<noteq> [] \<and> hd (dirname p) = CHR ''/''"
      using dirname_absolute "1.prems" by blast
    ultimately obtain anc where "findExistingAncestor h w (dirname p) = Some anc"
      using "1.IH" by blast
    then show ?thesis using True by (subst findExistingAncestor.simps) auto
  qed
qed











section \<open>The orchestrator, stage by stage\<close>

lemma wrap_sandboxing:
  assumes "needsSandboxing ps" and "seccompSection h s ps = (fp, s1)"
  shows "wrapCommandWithSandboxLinux h s ps =
     (case wrapTry h s1 ps fp of
        Throws e s2 \<Rightarrow> Throws e (catchCleanup h s2 fp)
      | Returns wrappedCommand s2 \<Rightarrow> Returns wrappedCommand s2
      | Diverges \<Rightarrow> Diverges)"
  using assms by (auto simp: wrapCommandWithSandboxLinux_def needsSandboxing_def)

lemma wrap_not_sandboxing:
  "\<not> needsSandboxing ps \<Longrightarrow> wrapCommandWithSandboxLinux h s ps = Returns (command ps) s"
  by (simp add: wrapCommandWithSandboxLinux_def needsSandboxing_def)

lemma wrap_Throws_stage:
  assumes sec: "seccompSection h s ps = (fp, s1)"
      and thr: "wrapCommandWithSandboxLinux h s ps = Throws e s'"
  shows "needsSandboxing ps
       \<and> (\<exists>s2. wrapTry h s1 ps fp = Throws e s2 \<and> s' = catchCleanup h s2 fp)"
proof -
  have ns: "needsSandboxing ps"
  proof (rule ccontr)
    assume "\<not> needsSandboxing ps"
    with thr show False by (simp add: wrap_not_sandboxing)
  qed
  from thr wrap_sandboxing [OF ns sec]
  have "\<exists>s2. wrapTry h s1 ps fp = Throws e s2 \<and> s' = catchCleanup h s2 fp"
    by (cases "wrapTry h s1 ps fp") simp_all
  with ns show ?thesis by (rule conjI)
qed

lemma wrap_Returns_stage:
  assumes sec: "seccompSection h s ps = (fp, s1)"
      and ns: "needsSandboxing ps"
      and ret: "wrapCommandWithSandboxLinux h s ps = Returns c s'"
  shows "wrapTry h s1 ps fp = Returns c s'"
  using ret wrap_sandboxing [OF ns sec] by (cases "wrapTry h s1 ps fp") simp_all

lemma wrapTry_Throws_cases:
  assumes "wrapTry h s ps fp = Throws e s'"
  shows "(networkSection h (world s) ps = Inl e \<and> s' = s)
       \<or> (generateFilesystemArgs h s (readConfig ps) (writeConfig ps)
              (searchDepth ps) (allowGitConfig ps) = Throws e s')
       \<or> (\<exists>fsArgs. generateFilesystemArgs h s (readConfig ps) (writeConfig ps)
              (searchDepth ps) (allowGitConfig ps) = Returns fsArgs s'
            \<and> \<not> truthy (whichSync h (world s') (shellName ps))
            \<and> e = ShellNotFound (shellName ps))
       \<or> (\<exists>fsArgs shell. generateFilesystemArgs h s (readConfig ps) (writeConfig ps)
              (searchDepth ps) (allowGitConfig ps) = Returns fsArgs s'
            \<and> whichSync h (world s') (shellName ps) = Some shell \<and> shell \<noteq> []
            \<and> payload h (world s') ps fp shell = Inl e)"
proof (cases "networkSection h (world s) ps")
  case (Inl e2)
  with assms show ?thesis by (simp add: wrapTry_def)
next
  case (Inr netArgs)
  let ?gen = "generateFilesystemArgs h s (readConfig ps) (writeConfig ps)
                  (searchDepth ps) (allowGitConfig ps)"
  show ?thesis
  proof (cases ?gen)
    case (Throws e2 s2)
    with Inr assms show ?thesis by (simp add: wrapTry_def)
  next
    case Diverges
    with Inr assms show ?thesis by (simp add: wrapTry_def)
  next
    case (Returns fsArgs s2)
    show ?thesis
    proof (cases "whichSync h (world s2) (shellName ps)")
      case None
      with Inr Returns assms have "e = ShellNotFound (shellName ps) \<and> s' = s2"
        by (simp add: wrapTry_def)
      with None Returns show ?thesis by simp
    next
      case (Some shell)
      show ?thesis
      proof (cases "shell = []")
        case True
        with Inr Returns Some assms have "e = ShellNotFound (shellName ps) \<and> s' = s2"
          by (simp add: wrapTry_def)
        with Some True Returns show ?thesis by simp
      next
        case False
        show ?thesis
        proof (cases "payload h (world s2) ps fp shell")
          case (Inl e2)
          with Inr Returns Some False assms have "e2 = e \<and> s' = s2"
            by (simp add: wrapTry_def)
          with Inl Returns Some False show ?thesis by simp
        next
          case pay: (Inr x)
          with Inr Returns Some False assms show ?thesis by (simp add: wrapTry_def)
        qed
      qed
    qed
  qed
qed

lemma wrapTry_Returns_cases:
  assumes "wrapTry h s ps fp = Returns c s'"
  shows "\<exists>netArgs fsArgs shell sandboxCommand.
           networkSection h (world s) ps = Inr netArgs
         \<and> generateFilesystemArgs h s (readConfig ps) (writeConfig ps)
              (searchDepth ps) (allowGitConfig ps) = Returns fsArgs s'
         \<and> whichSync h (world s') (shellName ps) = Some shell \<and> shell \<noteq> []
         \<and> payload h (world s') ps fp shell = Inr sandboxCommand
         \<and> c = shellquote h
                 ([''bwrap'', ''--new-session'', ''--die-with-parent'']
                  @ netArgs @ fsArgs
                  @ [''--dev'', ''/dev'', ''--unshare-pid'']
                  @ (if \<not> enableWeakerNestedSandbox ps then [''--proc'', ''/proc''] else [])
                  @ [''--'', shell, ''-c'', sandboxCommand])"
proof (cases "networkSection h (world s) ps")
  case (Inl e)
  with assms show ?thesis by (simp add: wrapTry_def)
next
  case (Inr netArgs)
  let ?gen = "generateFilesystemArgs h s (readConfig ps) (writeConfig ps)
                  (searchDepth ps) (allowGitConfig ps)"
  show ?thesis
  proof (cases ?gen)
    case (Throws e s2)
    with Inr assms show ?thesis by (simp add: wrapTry_def)
  next
    case Diverges
    with Inr assms show ?thesis by (simp add: wrapTry_def)
  next
    case (Returns fsArgs s2)
    show ?thesis
    proof (cases "whichSync h (world s2) (shellName ps)")
      case None
      with Inr Returns assms show ?thesis by (simp add: wrapTry_def)
    next
      case (Some shell)
      show ?thesis
      proof (cases "shell = []")
        case True
        with Inr Returns Some assms show ?thesis by (simp add: wrapTry_def)
      next
        case False
        show ?thesis
        proof (cases "payload h (world s2) ps fp shell")
          case (Inl e)
          with Inr Returns Some False assms show ?thesis by (simp add: wrapTry_def)
        next
          case pay: (Inr x)
          from Inr Returns Some False pay assms
          have s': "s' = s2" and
            c: "c = shellquote h
                 ([''bwrap'', ''--new-session'', ''--die-with-parent'']
                  @ netArgs @ fsArgs
                  @ [''--dev'', ''/dev'', ''--unshare-pid'']
                  @ (if \<not> enableWeakerNestedSandbox ps then [''--proc'', ''/proc''] else [])
                  @ [''--'', shell, ''-c'', x])"
            by (simp_all add: wrapTry_def)
          show ?thesis
            apply (rule exI [where x = netArgs], rule exI [where x = fsArgs])
            apply (rule exI [where x = shell], rule exI [where x = x])
            using Inr Returns Some False pay s' c by simp
        qed
      qed
    qed
  qed
qed

lemma wrapTry_Diverges_cases:
  assumes "wrapTry h s ps fp = Diverges"
  shows "generateFilesystemArgs h s (readConfig ps) (writeConfig ps)
              (searchDepth ps) (allowGitConfig ps) = Diverges"
proof (cases "networkSection h (world s) ps")
  case (Inl e)
  with assms show ?thesis by (simp add: wrapTry_def)
next
  case (Inr netArgs)
  let ?gen = "generateFilesystemArgs h s (readConfig ps) (writeConfig ps)
                  (searchDepth ps) (allowGitConfig ps)"
  show ?thesis
  proof (cases ?gen)
    case (Throws e s2)
    with Inr assms show ?thesis by (simp add: wrapTry_def)
  next
    case Diverges
    then show ?thesis .
  next
    case (Returns fsArgs s2)
    with Inr assms show ?thesis
      by (simp add: wrapTry_def split: option.splits if_splits sum.splits)
  qed
qed

subsection \<open>What makes the filesystem stage throw\<close>

lemma protectNonExistent_Throws:
  "protectNonExistent h allowed args s n anc = Throws e s' \<longleftrightarrow>
     e = MkdtempFailed \<and> s' = s
     \<and> ancestorIsWithinAllowedPath allowed anc n
     \<and> findFirstNonExistentComponent h (world s) n \<noteq> n
     \<and> mkdtempSync h (world s) (pathJoin h (tmpdir h) ''claude-empty-'') = None"
  by (auto simp: protectNonExistent_def Let_def split: if_splits option.splits)

lemma denyNormalized_Throws:
  "denyNormalized h allowed args s n = Throws e s' \<longleftrightarrow>
     e = MkdtempFailed \<and> s' = s
     \<and> needsEmptyDir h (world s) allowed n
     \<and> mkdtempSync h (world s) (pathJoin h (tmpdir h) ''claude-empty-'') = None"
proof (cases "findExistingAncestor h (world s) (dirname n)")
  case None
  then show ?thesis
    by (auto simp: denyNormalized_def needsEmptyDir_def split: option.splits)
next
  case (Some anc)
  then show ?thesis
    by (auto simp: denyNormalized_def needsEmptyDir_def protectNonExistent_Throws
        split: option.splits)
qed

lemma denyLoop_Throws:
  "denyLoop h allowed args s xs = Throws e s' \<Longrightarrow>
     \<exists>pre p post args2.
       xs = pre @ p # post
       \<and> denyLoop h allowed args s pre = Returns args2 s'
       \<and> denyStep h allowed args2 s' p = Throws e s'"
proof (induction xs arbitrary: args s)
  case Nil
  then show ?case by simp
next
  case (Cons x xs)
  show ?case
  proof (cases "denyStep h allowed args s x")
    case (Returns a1 s1)
    with Cons.prems have "denyLoop h allowed a1 s1 xs = Throws e s'" by simp
    from Cons.IH [OF this] obtain pre p post args2 where
      xs: "xs = pre @ p # post"
      and pre: "denyLoop h allowed a1 s1 pre = Returns args2 s'"
      and step: "denyStep h allowed args2 s' p = Throws e s'" by blast
    from Returns pre have "denyLoop h allowed args s (x # pre) = Returns args2 s'" by simp
    moreover from xs have "x # xs = (x # pre) @ p # post" by simp
    ultimately show ?thesis using step by blast
  next
    case (Throws e2 s2)
    with Cons.prems have eq: "e2 = e" "s2 = s'" by simp_all
    from Throws have "denyNormalized h allowed args s
        (normalizePathForSandbox h (world s) x) = Throws e2 s2"
      by (simp add: denyStep_def)
    then have "s2 = s" by (simp add: denyNormalized_Throws)
    with eq Throws have "denyStep h allowed args s' x = Throws e s'" and "s = s'" by simp_all
    moreover have "denyLoop h allowed args s' [] = Returns args s'" by simp
    moreover have "x # xs = [] @ x # xs" by simp
    ultimately show ?thesis by blast
  next
    case Diverges
    with Cons.prems show ?thesis by simp
  qed
qed

lemma generateFilesystemArgs_Throws:
  assumes "generateFilesystemArgs h s rc wco maxDepth agc = Throws e s'"
  shows "\<exists>wc. wco = Some wc
     \<and> ((e = CwdFailed \<and> s' = s \<and> cwd h (world s) = None)
        \<or> (e = MkdtempFailed
            \<and> (\<exists>md args allowed pre p post args2.
                  linuxGetMandatoryDenyPaths h (world s) maxDepth agc = Some md
                \<and> allowLoop h (world s) ([''--ro-bind'', ''/'', ''/''], []) (allowOnly wc)
                    = (args, allowed)
                \<and> denyWithinAllow wc @ md = pre @ p # post
                \<and> denyLoop h allowed args s pre = Returns args2 s'
                \<and> needsEmptyDir h (world s') allowed (normalizePathForSandbox h (world s') p)
                \<and> mkdtempSync h (world s') (pathJoin h (tmpdir h) ''claude-empty-'') = None)))"
proof (cases wco)
  case None
  with assms show ?thesis by (simp add: generateFilesystemArgs_def)
next
  case (Some wc)
  with assms have ws: "writeStage h s wc maxDepth agc = Throws e s'"
    by (simp add: generateFilesystemArgs_def split: result.splits)
  obtain args allowed where al:
    "allowLoop h (world s) ([''--ro-bind'', ''/'', ''/''], []) (allowOnly wc) = (args, allowed)"
    by (cases "allowLoop h (world s) ([''--ro-bind'', ''/'', ''/''], []) (allowOnly wc)")
  show ?thesis
  proof (cases "linuxGetMandatoryDenyPaths h (world s) maxDepth agc")
    case None
    then have "cwd h (world s) = None"
      by (simp add: linuxGetMandatoryDenyPaths_def split: option.splits)
    moreover from ws al None have "e = CwdFailed \<and> s' = s" by (simp add: writeStage_def)
    ultimately show ?thesis using Some by simp
  next
    case md: (Some md)
    with ws al have "denyLoop h allowed args s (denyWithinAllow wc @ md) = Throws e s'"
      by (simp add: writeStage_def)
    from denyLoop_Throws [OF this] obtain pre p post args2 where
      split: "denyWithinAllow wc @ md = pre @ p # post"
      and pre: "denyLoop h allowed args s pre = Returns args2 s'"
      and step: "denyStep h allowed args2 s' p = Throws e s'" by blast
    from step have "e = MkdtempFailed
        \<and> needsEmptyDir h (world s') allowed (normalizePathForSandbox h (world s') p)
        \<and> mkdtempSync h (world s') (pathJoin h (tmpdir h) ''claude-empty-'') = None"
      by (simp add: denyStep_def denyNormalized_Throws)
    with md al split pre Some show ?thesis by blast
  qed
qed

subsection \<open>The compiler returns or throws\<close>

lemma denyNormalized_not_Diverges:
  assumes "n \<noteq> []" and "hd n = CHR ''/''"
  shows "denyNormalized h allowed args s n \<noteq> Diverges"
proof -
  from dirname_absolute [OF assms]
  have "dirname n \<noteq> []" "hd (dirname n) = CHR ''/''" by simp_all
  from findExistingAncestor_terminates [OF this, where h = h and w = "world s"]
  obtain anc where "findExistingAncestor h (world s) (dirname n) = Some anc" by blast
  then show ?thesis
    by (auto simp: denyNormalized_def protectNonExistent_def Let_def
        split: option.splits if_splits)
qed

lemma denyLoop_not_Diverges:
  assumes "\<forall>w p. normalizePathForSandbox h w p \<noteq> []
             \<and> hd (normalizePathForSandbox h w p) = CHR ''/''"
  shows "denyLoop h allowed args s xs \<noteq> Diverges"
proof (induction xs arbitrary: args s)
  case Nil
  show ?case by simp
next
  case (Cons x xs)
  have "denyStep h allowed args s x \<noteq> Diverges"
    unfolding denyStep_def using assms by (intro denyNormalized_not_Diverges) simp_all
  then show ?case using Cons.IH by (cases "denyStep h allowed args s x") simp_all
qed

lemma generateFilesystemArgs_not_Diverges:
  assumes "\<forall>w p. normalizePathForSandbox h w p \<noteq> []
             \<and> hd (normalizePathForSandbox h w p) = CHR ''/''"
  shows "generateFilesystemArgs h s rc wco maxDepth agc \<noteq> Diverges"
proof (cases wco)
  case None
  then show ?thesis by (simp add: generateFilesystemArgs_def)
next
  case (Some wc)
  obtain args allowed where al:
    "allowLoop h (world s) ([''--ro-bind'', ''/'', ''/''], []) (allowOnly wc) = (args, allowed)"
    by (cases "allowLoop h (world s) ([''--ro-bind'', ''/'', ''/''], []) (allowOnly wc)")
  have "writeStage h s wc maxDepth agc \<noteq> Diverges"
    using al denyLoop_not_Diverges [OF assms]
    by (simp add: writeStage_def split: option.splits)
  with Some show ?thesis
    by (cases "writeStage h s wc maxDepth agc") (simp_all add: generateFilesystemArgs_def)
qed

section \<open>C5: what makes the orchestrator throw\<close>

lemma networkSection_Inl:
  "networkSection h w ps = Inl e \<longleftrightarrow>
     needsNetworkRestriction ps
     \<and> (\<exists>a b. httpSocketPath ps = Some a \<and> socksSocketPath ps = Some b
            \<and> a \<noteq> [] \<and> b \<noteq> []
            \<and> ((e = HttpBridgeSocketMissing a \<and> \<not> existsSync h w a)
               \<or> (e = SocksBridgeSocketMissing b \<and> existsSync h w a
                   \<and> \<not> existsSync h w b)))"
proof (cases "needsNetworkRestriction ps")
  case False
  then show ?thesis by (simp add: networkSection_def)
next
  case True
  show ?thesis
  proof (cases "httpSocketPath ps")
    case None
    with True show ?thesis by (simp add: networkSection_def)
  next
    case a: (Some a)
    show ?thesis
    proof (cases "socksSocketPath ps")
      case None
      with True a show ?thesis by (simp add: networkSection_def)
    next
      case b: (Some b)
      with True a show ?thesis by (auto simp: networkSection_def)
    qed
  qed
qed

lemma payload_Inl:
  "payload h w ps fp shell = Inl e \<longleftrightarrow>
     e = ApplySeccompNotFound
     \<and> \<not> (needsNetworkRestriction ps \<and> bridgeRequested ps)
     \<and> truthy fp
     \<and> \<not> truthy (getApplySeccompBinaryPath h w (seccompApplyPath ps))"
proof (cases "needsNetworkRestriction ps \<and> bridgeRequested ps")
  case True
  then show ?thesis
    by (auto simp: payload_def Let_def split: option.splits prod.splits)
next
  case False
  then have nb: "(needsNetworkRestriction ps \<and> bridgeRequested ps) = False" by simp
  show ?thesis
  proof (cases fp)
    case None
    then show ?thesis unfolding payload_def nb by simp
  next
    case (Some f)
    then show ?thesis unfolding payload_def nb
      by (cases "getApplySeccompBinaryPath h w (seccompApplyPath ps)") auto
  qed
qed

lemma seccompSection_None:
  assumes "seccompSection h s ps = (fp, s1)"
      and "allowAllUnixSockets ps
           \<or> \<not> truthy (fst (generateSeccompFilter h (world s) (seccompBpfPath ps)))
           \<or> \<not> truthy (getApplySeccompBinaryPath h
                  (snd (generateSeccompFilter h (world s) (seccompBpfPath ps)))
                  (seccompApplyPath ps))"
  shows "fp = None"
proof (cases "allowAllUnixSockets ps")
  case True
  with assms(1) show ?thesis by (simp add: seccompSection_def)
next
  case False
  obtain g w1 where g: "generateSeccompFilter h (world s) (seccompBpfPath ps) = (g, w1)"
    by (cases "generateSeccompFilter h (world s) (seccompBpfPath ps)") auto
  with assms(2) False
  have "\<not> truthy g \<or> \<not> truthy (getApplySeccompBinaryPath h w1 (seccompApplyPath ps))"
    by auto
  with assms(1) False g show ?thesis
    by (auto simp: seccompSection_def Let_def)
qed

lemma wrap_Throws_network:
  assumes sec: "seccompSection h s ps = (fp, s1)"
      and net: "networkSection h (world s1) ps = Inl e"
  shows "wrapCommandWithSandboxLinux h s ps = Throws e (catchCleanup h s1 fp)"
proof -
  from net have "needsNetworkRestriction ps" by (simp add: networkSection_Inl)
  then have ns: "needsSandboxing ps" by (simp add: needsSandboxing_def)
  from net have "wrapTry h s1 ps fp = Throws e s1" by (simp add: wrapTry_def)
  then show ?thesis unfolding wrap_sandboxing [OF ns sec] by simp
qed

lemma wrap_Throws_filesystem:
  assumes sec: "seccompSection h s ps = (fp, s1)"
      and ns: "needsSandboxing ps"
      and net: "networkSection h (world s1) ps = Inr netArgs"
      and gen: "generateFilesystemArgs h s1 (readConfig ps) (writeConfig ps)
                  (searchDepth ps) (allowGitConfig ps) = Throws e s2"
  shows "wrapCommandWithSandboxLinux h s ps = Throws e (catchCleanup h s2 fp)"
proof -
  from net gen have "wrapTry h s1 ps fp = Throws e s2" by (simp add: wrapTry_def)
  then show ?thesis unfolding wrap_sandboxing [OF ns sec] by simp
qed

lemma wrap_Throws_shell:
  assumes sec: "seccompSection h s ps = (fp, s1)"
      and ns: "needsSandboxing ps"
      and net: "networkSection h (world s1) ps = Inr netArgs"
      and gen: "generateFilesystemArgs h s1 (readConfig ps) (writeConfig ps)
                  (searchDepth ps) (allowGitConfig ps) = Returns fsArgs s2"
      and sh: "\<not> truthy (whichSync h (world s2) (shellName ps))"
  shows "wrapCommandWithSandboxLinux h s ps
           = Throws (ShellNotFound (shellName ps)) (catchCleanup h s2 fp)"
proof -
  from net gen sh have "wrapTry h s1 ps fp = Throws (ShellNotFound (shellName ps)) s2"
    by (cases "whichSync h (world s2) (shellName ps)") (simp_all add: wrapTry_def)
  then show ?thesis unfolding wrap_sandboxing [OF ns sec] by simp
qed

lemma generateFilesystemArgs_Throws_cwd:
  assumes "wco = Some wc" and "cwd h (world s) = None"
  shows "generateFilesystemArgs h s rc wco maxDepth agc = Throws CwdFailed s"
  using assms
  by (simp add: generateFilesystemArgs_def writeStage_def linuxGetMandatoryDenyPaths_def
      split: prod.splits)

text \<open>
  Claim C5, as amended.  Let \<open>fp\<close> and \<open>s1\<close> be the filter path and the state
  after the seccomp section.  \<open>wrapCommandWithSandboxLinux\<close> throws only when
  there are restrictions and one of these holds: a bridge is requested and
  its HTTP socket, or (the HTTP socket existing) its SOCKS socket, does not
  exist; a write configuration is given and \<open>process.cwd()\<close> throws; the
  deny loop has come, at a state \<open>s2\<close>, to a deny path that needs an empty
  directory and \<open>fs.mkdtempSync\<close> throws there; the filesystem stage has
  returned and the shell is not found; or the filesystem stage has returned,
  the shell is found, a filter is in use without a bridge, and the applicator
  binary is not found when the payload is built.  Missing syscall-filter
  tooling is not an error: when \<open>allowAllUnixSockets\<close> is set, or no filter is
  generated, or no applicator is found while the filter is set up, no filter
  is used and the function does not throw on account of the applicator.  No
  iteration of the deny loop throws on a path anomaly: it throws only when
  the path needs an empty directory and \<open>fs.mkdtempSync\<close> throws.  And the
  function does throw when a requested bridge socket is missing, when
  \<open>process.cwd()\<close> throws under a write configuration, and when the shell is
  not found.
\<close>

theorem C5_throws_only_on_hard_errors:
  assumes sec: "seccompSection h s ps = (fp, s1)"
  shows
    "(\<forall>e s'. wrapCommandWithSandboxLinux h s ps = Throws e s' \<longrightarrow>
        needsSandboxing ps
        \<and> ((\<exists>a b. e = HttpBridgeSocketMissing a \<and> needsNetworkRestriction ps
                \<and> httpSocketPath ps = Some a \<and> socksSocketPath ps = Some b
                \<and> a \<noteq> [] \<and> b \<noteq> [] \<and> \<not> existsSync h (world s1) a)
           \<or> (\<exists>a b. e = SocksBridgeSocketMissing b \<and> needsNetworkRestriction ps
                \<and> httpSocketPath ps = Some a \<and> socksSocketPath ps = Some b
                \<and> a \<noteq> [] \<and> b \<noteq> [] \<and> existsSync h (world s1) a
                \<and> \<not> existsSync h (world s1) b)
           \<or> (e = CwdFailed \<and> writeConfig ps \<noteq> None \<and> cwd h (world s1) = None)
           \<or> (e = MkdtempFailed
                \<and> (\<exists>wc md args allowed pre p post args2 s2.
                      writeConfig ps = Some wc
                    \<and> linuxGetMandatoryDenyPaths h (world s1) (searchDepth ps)
                          (allowGitConfig ps) = Some md
                    \<and> allowLoop h (world s1) ([''--ro-bind'', ''/'', ''/''], [])
                          (allowOnly wc) = (args, allowed)
                    \<and> denyWithinAllow wc @ md = pre @ p # post
                    \<and> denyLoop h allowed args s1 pre = Returns args2 s2
                    \<and> needsEmptyDir h (world s2) allowed
                          (normalizePathForSandbox h (world s2) p)
                    \<and> mkdtempSync h (world s2) (pathJoin h (tmpdir h) ''claude-empty-'')
                        = None))
           \<or> (\<exists>fsArgs s2. e = ShellNotFound (shellName ps)
                \<and> generateFilesystemArgs h s1 (readConfig ps) (writeConfig ps)
                      (searchDepth ps) (allowGitConfig ps) = Returns fsArgs s2
                \<and> \<not> truthy (whichSync h (world s2) (shellName ps)))
           \<or> (\<exists>f fsArgs s2. e = ApplySeccompNotFound \<and> fp = Some f
                \<and> \<not> (needsNetworkRestriction ps \<and> bridgeRequested ps)
                \<and> generateFilesystemArgs h s1 (readConfig ps) (writeConfig ps)
                      (searchDepth ps) (allowGitConfig ps) = Returns fsArgs s2
                \<and> truthy (whichSync h (world s2) (shellName ps))
                \<and> \<not> truthy (getApplySeccompBinaryPath h (world s2) (seccompApplyPath ps)))))
     \<and> (allowAllUnixSockets ps
          \<or> \<not> truthy (fst (generateSeccompFilter h (world s) (seccompBpfPath ps)))
          \<or> \<not> truthy (getApplySeccompBinaryPath h
                 (snd (generateSeccompFilter h (world s) (seccompBpfPath ps)))
                 (seccompApplyPath ps))
        \<longrightarrow> fp = None
            \<and> (\<forall>s'. wrapCommandWithSandboxLinux h s ps \<noteq> Throws ApplySeccompNotFound s'))
     \<and> (\<forall>allowed args s0 p e s'.
          denyStep h allowed args s0 p = Throws e s' \<longrightarrow>
            e = MkdtempFailed \<and> s' = s0
            \<and> needsEmptyDir h (world s0) allowed (normalizePathForSandbox h (world s0) p)
            \<and> mkdtempSync h (world s0) (pathJoin h (tmpdir h) ''claude-empty-'') = None)
     \<and> (\<forall>a b. needsNetworkRestriction ps
          \<and> httpSocketPath ps = Some a \<and> socksSocketPath ps = Some b
          \<and> a \<noteq> [] \<and> b \<noteq> [] \<and> \<not> existsSync h (world s1) a \<longrightarrow>
          wrapCommandWithSandboxLinux h s ps
            = Throws (HttpBridgeSocketMissing a) (catchCleanup h s1 fp))
     \<and> (\<forall>a b. needsNetworkRestriction ps
          \<and> httpSocketPath ps = Some a \<and> socksSocketPath ps = Some b
          \<and> a \<noteq> [] \<and> b \<noteq> [] \<and> existsSync h (world s1) a
          \<and> \<not> existsSync h (world s1) b \<longrightarrow>
          wrapCommandWithSandboxLinux h s ps
            = Throws (SocksBridgeSocketMissing b) (catchCleanup h s1 fp))
     \<and> (\<forall>netArgs wc. needsSandboxing ps
          \<and> networkSection h (world s1) ps = Inr netArgs
          \<and> writeConfig ps = Some wc \<and> cwd h (world s1) = None \<longrightarrow>
          wrapCommandWithSandboxLinux h s ps = Throws CwdFailed (catchCleanup h s1 fp))
     \<and> (\<forall>netArgs fsArgs s2. needsSandboxing ps
          \<and> networkSection h (world s1) ps = Inr netArgs
          \<and> generateFilesystemArgs h s1 (readConfig ps) (writeConfig ps)
                (searchDepth ps) (allowGitConfig ps) = Returns fsArgs s2
          \<and> \<not> truthy (whichSync h (world s2) (shellName ps)) \<longrightarrow>
          wrapCommandWithSandboxLinux h s ps
            = Throws (ShellNotFound (shellName ps)) (catchCleanup h s2 fp))"
proof -
  let ?gen = "generateFilesystemArgs h s1 (readConfig ps) (writeConfig ps)
                (searchDepth ps) (allowGitConfig ps)"
  let ?D1 = "\<lambda>e. \<exists>a b. e = HttpBridgeSocketMissing a \<and> needsNetworkRestriction ps
                \<and> httpSocketPath ps = Some a \<and> socksSocketPath ps = Some b
                \<and> a \<noteq> [] \<and> b \<noteq> [] \<and> \<not> existsSync h (world s1) a"
  let ?D2 = "\<lambda>e. \<exists>a b. e = SocksBridgeSocketMissing b \<and> needsNetworkRestriction ps
                \<and> httpSocketPath ps = Some a \<and> socksSocketPath ps = Some b
                \<and> a \<noteq> [] \<and> b \<noteq> [] \<and> existsSync h (world s1) a
                \<and> \<not> existsSync h (world s1) b"
  let ?D3 = "\<lambda>e. e = CwdFailed \<and> writeConfig ps \<noteq> None \<and> cwd h (world s1) = None"
  let ?D4 = "\<lambda>e. e = MkdtempFailed
                \<and> (\<exists>wc md args allowed pre p post args2 s2.
                      writeConfig ps = Some wc
                    \<and> linuxGetMandatoryDenyPaths h (world s1) (searchDepth ps)
                          (allowGitConfig ps) = Some md
                    \<and> allowLoop h (world s1) ([''--ro-bind'', ''/'', ''/''], [])
                          (allowOnly wc) = (args, allowed)
                    \<and> denyWithinAllow wc @ md = pre @ p # post
                    \<and> denyLoop h allowed args s1 pre = Returns args2 s2
                    \<and> needsEmptyDir h (world s2) allowed
                          (normalizePathForSandbox h (world s2) p)
                    \<and> mkdtempSync h (world s2) (pathJoin h (tmpdir h) ''claude-empty-'')
                        = None)"
  let ?D5 = "\<lambda>e. \<exists>fsArgs s2. e = ShellNotFound (shellName ps)
                \<and> ?gen = Returns fsArgs s2
                \<and> \<not> truthy (whichSync h (world s2) (shellName ps))"
  let ?D6 = "\<lambda>e. \<exists>f fsArgs s2. e = ApplySeccompNotFound \<and> fp = Some f
                \<and> \<not> (needsNetworkRestriction ps \<and> bridgeRequested ps)
                \<and> ?gen = Returns fsArgs s2
                \<and> truthy (whichSync h (world s2) (shellName ps))
                \<and> \<not> truthy (getApplySeccompBinaryPath h (world s2) (seccompApplyPath ps))"
  have only: "needsSandboxing ps
      \<and> (?D1 e \<or> ?D2 e \<or> ?D3 e \<or> ?D4 e \<or> ?D5 e \<or> ?D6 e)"
    if thr: "wrapCommandWithSandboxLinux h s ps = Throws e s'" for e s'
  proof -
    from wrap_Throws_stage [OF sec thr] obtain s2 where
      ns: "needsSandboxing ps" and t: "wrapTry h s1 ps fp = Throws e s2" by blast
    from wrapTry_Throws_cases [OF t] consider
      (netErr) "networkSection h (world s1) ps = Inl e"
      | (fsErr) "?gen = Throws e s2"
      | (shellErr) "\<exists>fsArgs. ?gen = Returns fsArgs s2
            \<and> \<not> truthy (whichSync h (world s2) (shellName ps))
            \<and> e = ShellNotFound (shellName ps)"
      | (applyErr) "\<exists>fsArgs shell. ?gen = Returns fsArgs s2
            \<and> whichSync h (world s2) (shellName ps) = Some shell \<and> shell \<noteq> []
            \<and> payload h (world s2) ps fp shell = Inl e"
      by blast
    then have "?D1 e \<or> ?D2 e \<or> ?D3 e \<or> ?D4 e \<or> ?D5 e \<or> ?D6 e"
    proof cases
      case netErr
      then have "?D1 e \<or> ?D2 e" unfolding networkSection_Inl by blast
      then show ?thesis by blast
    next
      case fsErr
      from generateFilesystemArgs_Throws [OF fsErr] have "?D3 e \<or> ?D4 e" by blast
      then show ?thesis by blast
    next
      case shellErr
      then have "?D5 e" by blast
      then show ?thesis by blast
    next
      case applyErr
      then obtain fsArgs shell where g: "?gen = Returns fsArgs s2"
        and w: "whichSync h (world s2) (shellName ps) = Some shell" "shell \<noteq> []"
        and p: "payload h (world s2) ps fp shell = Inl e" by blast
      from p have e: "e = ApplySeccompNotFound"
        and nb: "\<not> (needsNetworkRestriction ps \<and> bridgeRequested ps)"
        and tf: "truthy fp"
        and na: "\<not> truthy (getApplySeccompBinaryPath h (world s2) (seccompApplyPath ps))"
        unfolding payload_Inl by simp_all
      from tf obtain f where f: "fp = Some f" by (cases fp) auto
      from w have tw: "truthy (whichSync h (world s2) (shellName ps))" by simp
      from e f nb g tw na have "?D6 e" by blast
      then show ?thesis by blast
    qed
    with ns show ?thesis by (rule conjI)
  qed
  have tooling: "fp = None
      \<and> (\<forall>s'. wrapCommandWithSandboxLinux h s ps \<noteq> Throws ApplySeccompNotFound s')"
    if miss: "allowAllUnixSockets ps
          \<or> \<not> truthy (fst (generateSeccompFilter h (world s) (seccompBpfPath ps)))
          \<or> \<not> truthy (getApplySeccompBinaryPath h
                 (snd (generateSeccompFilter h (world s) (seccompBpfPath ps)))
                 (seccompApplyPath ps))"
  proof -
    from seccompSection_None [OF sec miss] have none: "fp = None" .
    have "wrapCommandWithSandboxLinux h s ps \<noteq> Throws ApplySeccompNotFound s'" for s'
    proof
      assume "wrapCommandWithSandboxLinux h s ps = Throws ApplySeccompNotFound s'"
      from only [OF this] none show False by simp
    qed
    with none show ?thesis by simp
  qed
  have step: "e = MkdtempFailed \<and> s' = s0
            \<and> needsEmptyDir h (world s0) allowed (normalizePathForSandbox h (world s0) p)
            \<and> mkdtempSync h (world s0) (pathJoin h (tmpdir h) ''claude-empty-'') = None"
    if "denyStep h allowed args s0 p = Throws e s'" for allowed args s0 p e s'
    using that by (simp add: denyStep_def denyNormalized_Throws)
  have httpThrows: "wrapCommandWithSandboxLinux h s ps
            = Throws (HttpBridgeSocketMissing a) (catchCleanup h s1 fp)"
    if a: "needsNetworkRestriction ps
          \<and> httpSocketPath ps = Some a \<and> socksSocketPath ps = Some b
          \<and> a \<noteq> [] \<and> b \<noteq> [] \<and> \<not> existsSync h (world s1) a" for a b
  proof -
    from a have "networkSection h (world s1) ps = Inl (HttpBridgeSocketMissing a)"
      unfolding networkSection_Inl by simp
    with sec show ?thesis by (rule wrap_Throws_network)
  qed
  have socksThrows: "wrapCommandWithSandboxLinux h s ps
            = Throws (SocksBridgeSocketMissing b) (catchCleanup h s1 fp)"
    if a: "needsNetworkRestriction ps
          \<and> httpSocketPath ps = Some a \<and> socksSocketPath ps = Some b
          \<and> a \<noteq> [] \<and> b \<noteq> [] \<and> existsSync h (world s1) a
          \<and> \<not> existsSync h (world s1) b" for a b
  proof -
    from a have "networkSection h (world s1) ps = Inl (SocksBridgeSocketMissing b)"
      unfolding networkSection_Inl by simp
    with sec show ?thesis by (rule wrap_Throws_network)
  qed
  have cwdThrows: "wrapCommandWithSandboxLinux h s ps = Throws CwdFailed (catchCleanup h s1 fp)"
    if a: "needsSandboxing ps \<and> networkSection h (world s1) ps = Inr netArgs
          \<and> writeConfig ps = Some wc \<and> cwd h (world s1) = None" for netArgs wc
  proof -
    from a have ns: "needsSandboxing ps"
      and net: "networkSection h (world s1) ps = Inr netArgs"
      and wc: "writeConfig ps = Some wc" and c: "cwd h (world s1) = None" by simp_all
    from generateFilesystemArgs_Throws_cwd [OF wc c]
    have "?gen = Throws CwdFailed s1" .
    with sec ns net show ?thesis by (rule wrap_Throws_filesystem)
  qed
  have shellThrows: "wrapCommandWithSandboxLinux h s ps
            = Throws (ShellNotFound (shellName ps)) (catchCleanup h s2 fp)"
    if a: "needsSandboxing ps \<and> networkSection h (world s1) ps = Inr netArgs
          \<and> ?gen = Returns fsArgs s2
          \<and> \<not> truthy (whichSync h (world s2) (shellName ps))" for netArgs fsArgs s2
  proof -
    from a have ns: "needsSandboxing ps"
      and net: "networkSection h (world s1) ps = Inr netArgs"
      and g: "?gen = Returns fsArgs s2"
      and sh: "\<not> truthy (whichSync h (world s2) (shellName ps))" by simp_all
    from sec ns net g sh show ?thesis by (rule wrap_Throws_shell)
  qed
  show ?thesis
    apply (intro conjI allI impI)
    subgoal for e s' using only [of e s'] by (rule conjunct1)
    subgoal for e s' using only [of e s'] by (rule conjunct2)
    subgoal using tooling by (rule conjunct1)
    subgoal for s' using tooling [THEN conjunct2] by (rule spec)
    subgoal for allowed args s0 p e s' using step [of allowed args s0 p e s'] by (rule conjunct1)
    subgoal for allowed args s0 p e s'
      using step [of allowed args s0 p e s'] by (rule conjunct2 [THEN conjunct1])
    subgoal for allowed args s0 p e s'
      using step [of allowed args s0 p e s'] by (rule conjunct2 [THEN conjunct2, THEN conjunct1])
    subgoal for allowed args s0 p e s'
      using step [of allowed args s0 p e s'] by (rule conjunct2 [THEN conjunct2, THEN conjunct2])
    subgoal for a b by (rule httpThrows)
    subgoal for a b by (rule socksThrows)
    subgoal for netArgs wc by (rule cwdThrows)
    subgoal for netArgs fsArgs s2 by (rule shellThrows)
    done
qed

text \<open>An instance: the shell is not on the host.\<close>

theorem C5_witness:
  "seccompSection hostNoShell (initialState worldPlain) (writeParams [''/w''] [])
     = (Some ''/tmp/claude-seccomp.bpf'',
        \<lparr> world = worldPlain @ [(''/tmp/claude-seccomp.bpf'', ToyFile 104)],
          bwrapMountPoints = [],
          generatedSeccompFilters = [''/tmp/claude-seccomp.bpf''],
          exitHandlerRegistered = True \<rparr>)
   \<and> needsSandboxing (writeParams [''/w''] [])
   \<and> \<not> truthy (whichSync hostNoShell
          (worldPlain @ [(''/tmp/claude-seccomp.bpf'', ToyFile 104)]) ''bash'')
   \<and> wrapCommandWithSandboxLinux hostNoShell (initialState worldPlain)
        (writeParams [''/w''] [])
      = Throws (ShellNotFound ''bash'')
          ((initialState worldPlain)\<lparr>exitHandlerRegistered := True\<rparr>)"
proof -
  let ?ps = "writeParams [''/w''] []"
  let ?s1 = "\<lparr> world = worldPlain @ [(''/tmp/claude-seccomp.bpf'', ToyFile 104)],
          bwrapMountPoints = [],
          generatedSeccompFilters = [''/tmp/claude-seccomp.bpf''],
          exitHandlerRegistered = True \<rparr>"
  have sec: "seccompSection hostNoShell (initialState worldPlain) ?ps
      = (Some ''/tmp/claude-seccomp.bpf'', ?s1)" by code_simp
  have ns: "needsSandboxing ?ps" by code_simp
  have net: "networkSection hostNoShell (world ?s1) ?ps = Inr []" by code_simp
  have gen: "generateFilesystemArgs hostNoShell ?s1 (readConfig ?ps) (writeConfig ?ps)
      (searchDepth ?ps) (allowGitConfig ?ps)
      = Returns [''--ro-bind'', ''/'', ''/'', ''--bind'', ''/w'', ''/w''] ?s1" by code_simp
  have sh: "\<not> truthy (whichSync hostNoShell (world ?s1) (shellName ?ps))" by code_simp
  have name: "shellName ?ps = ''bash''" by code_simp
  have w: "world ?s1 = worldPlain @ [(''/tmp/claude-seccomp.bpf'', ToyFile 104)]" by simp
  have cc: "catchCleanup hostNoShell ?s1 (Some ''/tmp/claude-seccomp.bpf'')
      = (initialState worldPlain)\<lparr>exitHandlerRegistered := True\<rparr>" by code_simp
  note inst = C5_throws_only_on_hard_errors [OF sec]
  have thr: "wrapCommandWithSandboxLinux hostNoShell (initialState worldPlain) ?ps
      = Throws (ShellNotFound (shellName ?ps))
          (catchCleanup hostNoShell ?s1 (Some ''/tmp/claude-seccomp.bpf''))"
    by (rule inst [THEN conjunct2, THEN conjunct2, THEN conjunct2, THEN conjunct2,
          THEN conjunct2, THEN conjunct2, rule_format,
          OF conjI [OF ns conjI [OF net conjI [OF gen sh]]]])
  from sh have sh': "\<not> truthy (whichSync hostNoShell
          (worldPlain @ [(''/tmp/claude-seccomp.bpf'', ToyFile 104)]) ''bash'')"
    unfolding name w .
  from thr have thr': "wrapCommandWithSandboxLinux hostNoShell (initialState worldPlain) ?ps
      = Throws (ShellNotFound ''bash'')
          ((initialState worldPlain)\<lparr>exitHandlerRegistered := True\<rparr>)"
    unfolding name cc .
  show ?thesis using sec ns sh' thr' by (intro conjI)
qed

text \<open>
  The claim as stated fails where the syscall filter is required
  (\<open>allowAllUnixSockets\<close> is not set) and neither the filter nor the applicator
  is available: the command is wrapped, without the filter, and nothing is
  thrown.  It also fails where the host cannot create the directory for an
  intermediate deny mount point, and where the working directory is gone:
  both throw, and neither is one of the three causes the claim lists.
\<close>

theorem C5_counterexample:
  "\<not> allowAllUnixSockets (writeParams [''/w''] [])
   \<and> generateSeccompFilter hostNoSeccomp worldPlain None = (None, worldPlain)
   \<and> getApplySeccompBinaryPath hostNoSeccomp worldPlain None = None
   \<and> wrapCommandWithSandboxLinux hostNoSeccomp (initialState worldPlain)
        (writeParams [''/w''] [])
      = Returns (''bwrap --new-session --die-with-parent --ro-bind / / --bind /w /w ''
                 @ ''--dev /dev --unshare-pid --proc /proc -- /usr/bin/bash -c echo hello'')
          (initialState worldPlain)
   \<and> wrapCommandWithSandboxLinux hostNoTmp (initialState worldPlain)
        (writeParams [''/w''] [''/w/a/b''])
      = Throws MkdtempFailed ((initialState worldPlain)\<lparr>exitHandlerRegistered := True\<rparr>)
   \<and> wrapCommandWithSandboxLinux hostNoCwd (initialState worldPlain)
        (writeParams [''/w''] [])
      = Throws CwdFailed ((initialState worldPlain)\<lparr>exitHandlerRegistered := True\<rparr>)"
proof -
  have a: "\<not> allowAllUnixSockets (writeParams [''/w''] [])" by code_simp
  have b: "generateSeccompFilter hostNoSeccomp worldPlain None = (None, worldPlain)"
    by code_simp
  have c: "getApplySeccompBinaryPath hostNoSeccomp worldPlain None = None" by code_simp
  have d: "wrapCommandWithSandboxLinux hostNoSeccomp (initialState worldPlain)
        (writeParams [''/w''] [])
      = Returns (''bwrap --new-session --die-with-parent --ro-bind / / --bind /w /w ''
                 @ ''--dev /dev --unshare-pid --proc /proc -- /usr/bin/bash -c echo hello'')
          (initialState worldPlain)"
    by code_simp
  have e: "wrapCommandWithSandboxLinux hostNoTmp (initialState worldPlain)
        (writeParams [''/w''] [''/w/a/b''])
      = Throws MkdtempFailed ((initialState worldPlain)\<lparr>exitHandlerRegistered := True\<rparr>)"
    by code_simp
  have f: "wrapCommandWithSandboxLinux hostNoCwd (initialState worldPlain)
        (writeParams [''/w''] [])
      = Throws CwdFailed ((initialState worldPlain)\<lparr>exitHandlerRegistered := True\<rparr>)"
    by code_simp
  show ?thesis using a b c d e f by (intro conjI)
qed

section \<open>C9: the short-circuit of the orchestrator\<close>

lemma length_le_joinLines: "x \<in> set xs \<Longrightarrow> length x \<le> length (joinLines xs)"
  by (induction xs rule: joinLines.induct) auto

lemma length_le_sum_list: "x \<in> set xs \<Longrightarrow> length x \<le> sum_list (map length xs)"
  by (induction xs) auto

lemma length_le_quote:
  assumes "\<forall>xs. sum_list (map length xs) \<le> length (shellquote h xs)" and "x \<in> set xs"
  shows "length x \<le> length (shellquote h xs)"
proof -
  have "length x \<le> sum_list (map length xs)" using assms(2) by (rule length_le_sum_list)
  also have "\<dots> \<le> length (shellquote h xs)" using assms(1) by blast
  finally show ?thesis .
qed

lemma length_le_shell_c:
  assumes q: "\<forall>xs. sum_list (map length xs) \<le> length (shellquote h xs)"
      and "length u \<le> length script"
  shows "length u \<le> length (shellPath @ '' -c '' @ shellquote h [script])"
proof -
  have "length script \<le> length (shellquote h [script])"
    by (rule length_le_quote [OF q]) simp
  with assms(2) show ?thesis by simp
qed

lemma buildSandboxCommand_length:
  assumes q: "\<forall>xs. sum_list (map length xs) \<le> length (shellquote h xs)"
  shows "length userCommand
           \<le> length (buildSandboxCommand h w httpSocket socksSocket userCommand fp shell wps)"
proof -
  let ?shellPath = "if shell = [] then ''bash'' else shell"
  let ?inner = "shellquote h (innerBwrapArgs h w ?shellPath userCommand wps)"
  let ?eval = "''eval '' @ shellquote h [userCommand]"
  have inner: "length userCommand \<le> length ?inner"
    by (rule length_le_quote [OF q]) (simp add: innerBwrapArgs_def)
  have script1: "length userCommand
      \<le> length (joinLines (socatCommands httpSocket socksSocket
            @ [''sleep 0.1'', ''exec 3< '' @ shellquote h [f], ?inner]))" for f
  proof -
    have "length ?inner \<le> length (joinLines (socatCommands httpSocket socksSocket
            @ [''sleep 0.1'', ''exec 3< '' @ shellquote h [f], ?inner]))"
      by (rule length_le_joinLines) simp
    with inner show ?thesis by (rule le_trans)
  qed
  have "length userCommand \<le> length (shellquote h [userCommand])"
    by (rule length_le_quote [OF q]) simp
  then have ev: "length userCommand \<le> length ?eval" by simp
  have script2: "length userCommand
      \<le> length (joinLines (socatCommands httpSocket socksSocket @ [?eval]))"
  proof -
    have "length ?eval \<le> length (joinLines (socatCommands httpSocket socksSocket @ [?eval]))"
      by (rule length_le_joinLines) simp
    with ev show ?thesis by (rule le_trans)
  qed
  note a = length_le_shell_c [OF q script1] and b = length_le_shell_c [OF q script2]
  show ?thesis
  proof (cases fp)
    case None
    then show ?thesis using b by (simp add: buildSandboxCommand_def Let_def del: length_append)
  next
    case (Some f)
    then show ?thesis using a b
      by (simp add: buildSandboxCommand_def Let_def del: length_append)
  qed
qed

lemma payload_length:
  assumes q: "\<forall>xs. sum_list (map length xs) \<le> length (shellquote h xs)"
      and p: "payload h w ps fp shell = Inr x"
  shows "length (command ps) \<le> length x"
proof (cases "needsNetworkRestriction ps \<and> bridgeRequested ps")
  case True
  then obtain a b where "httpSocketPath ps = Some a" "socksSocketPath ps = Some b"
    by (cases "httpSocketPath ps"; cases "socksSocketPath ps") (auto simp: bridgeRequested_def)
  with True p have "\<exists>wps. x = buildSandboxCommand h w a b (command ps) fp shell wps"
    by (auto simp: payload_def Let_def)
  then show ?thesis using buildSandboxCommand_length [OF q] by blast
next
  case False
  then have nb: "(needsNetworkRestriction ps \<and> bridgeRequested ps) = False" by simp
  show ?thesis
  proof (cases "truthy fp")
    case False
    with p have "x = command ps" unfolding payload_def nb by simp
    then show ?thesis by simp
  next
    case True
    then obtain f where f: "fp = Some f" by (cases fp) auto
    with True p
    obtain ap where "x = shellquote h [ap, f, shell, ''-c'', command ps]"
      unfolding payload_def nb by (auto split: option.splits if_splits)
    then show ?thesis using length_le_quote [OF q, of "command ps"] by simp
  qed
qed

lemma hasReadRestrictions_iff:
  "hasReadRestrictions ps \<longleftrightarrow> \<not> (case readConfig ps of None \<Rightarrow> True | Some rc \<Rightarrow> denyOnly rc = [])"
  by (simp add: hasReadRestrictions_def split: option.splits)

lemma joinSpaces_grows: "sum_list (map length xs) \<le> length (joinSpaces xs)"
  by (induction xs rule: joinSpaces.induct) auto

lemma needsSandboxing_iff:
  "needsSandboxing ps \<longleftrightarrow>
     \<not> (\<not> needsNetworkRestriction ps
        \<and> (case readConfig ps of None \<Rightarrow> True | Some rc \<Rightarrow> denyOnly rc = [])
        \<and> writeConfig ps = None)"
  by (simp add: needsSandboxing_def hasReadRestrictions_iff hasWriteRestrictions_def)

lemma wrap_Returns_composite:
  assumes sec: "seccompSection h s ps = (fp, s1)"
      and ns: "needsSandboxing ps"
      and net: "networkSection h (world s1) ps = Inr netArgs"
      and gen: "generateFilesystemArgs h s1 (readConfig ps) (writeConfig ps)
                  (searchDepth ps) (allowGitConfig ps) = Returns fsArgs s2"
      and sh: "whichSync h (world s2) (shellName ps) = Some shell" "shell \<noteq> []"
      and pay: "payload h (world s2) ps fp shell = Inr sandboxCommand"
  shows "wrapCommandWithSandboxLinux h s ps
           = Returns
               (shellquote h
                  ([''bwrap'', ''--new-session'', ''--die-with-parent'']
                   @ netArgs @ fsArgs
                   @ [''--dev'', ''/dev'', ''--unshare-pid'']
                   @ (if \<not> enableWeakerNestedSandbox ps then [''--proc'', ''/proc''] else [])
                   @ [''--'', shell, ''-c'', sandboxCommand]))
               s2"
proof -
  from net gen sh pay have "wrapTry h s1 ps fp
           = Returns
               (shellquote h
                  ([''bwrap'', ''--new-session'', ''--die-with-parent'']
                   @ netArgs @ fsArgs
                   @ [''--dev'', ''/dev'', ''--unshare-pid'']
                   @ (if \<not> enableWeakerNestedSandbox ps then [''--proc'', ''/proc''] else [])
                   @ [''--'', shell, ''-c'', sandboxCommand]))
               s2"
    by (simp add: wrapTry_def)
  then show ?thesis unfolding wrap_sandboxing [OF ns sec] by simp
qed

lemma wrap_Throws_payload:
  assumes sec: "seccompSection h s ps = (fp, s1)"
      and ns: "needsSandboxing ps"
      and net: "networkSection h (world s1) ps = Inr netArgs"
      and gen: "generateFilesystemArgs h s1 (readConfig ps) (writeConfig ps)
                  (searchDepth ps) (allowGitConfig ps) = Returns fsArgs s2"
      and sh: "whichSync h (world s2) (shellName ps) = Some shell" "shell \<noteq> []"
      and pay: "payload h (world s2) ps fp shell = Inl e"
  shows "wrapCommandWithSandboxLinux h s ps = Throws e (catchCleanup h s2 fp)"
proof -
  from net gen sh pay have "wrapTry h s1 ps fp = Throws e s2" by (simp add: wrapTry_def)
  then show ?thesis unfolding wrap_sandboxing [OF ns sec] by simp
qed

lemma composite_differs:
  assumes q: "\<forall>xs. sum_list (map length xs) \<le> length (shellquote h xs)"
      and x: "length u \<le> length x"
  shows "shellquote h (pre @ [''--'', shell, ''-c'', x]) \<noteq> u"
proof -
  have "sum_list (map length (pre @ [''--'', shell, ''-c'', x]))
      \<le> length (shellquote h (pre @ [''--'', shell, ''-c'', x]))"
    using q by blast
  then have "4 + length x \<le> length (shellquote h (pre @ [''--'', shell, ''-c'', x]))"
    by simp
  with x show ?thesis by auto
qed

text \<open>
  Claim C9, as amended.  Provided \<open>shellquote.quote\<close> never returns a string
  shorter than its arguments together: \<open>wrapCommandWithSandboxLinux\<close> returns
  the user command unchanged if and only if \<open>needsNetworkRestriction\<close> is
  false, \<open>readConfig\<close> is absent or its \<open>denyOnly\<close> list is empty, and
  \<open>writeConfig\<close> is undefined, and then it changes no state.  In every other
  case, provided the normalizer yields absolute paths, the function ends in
  one of five ways, with \<open>fp\<close> and \<open>s1\<close> the filter path and the state after
  the seccomp section: the network section throws; the filesystem stage
  throws; the filesystem stage returns and the shell is not found, which
  throws; the shell is found and building the payload throws; or the payload
  is built and the function returns the quoted argument vector
  \<open>bwrap --new-session --die-with-parent\<close>, the network arguments, the
  filesystem arguments, \<open>--dev /dev --unshare-pid\<close>, \<open>--proc /proc\<close> unless
  \<open>enableWeakerNestedSandbox\<close> is set, \<open>--\<close>, the shell, \<open>-c\<close> and the payload,
  which is not the user command.
\<close>

theorem C9_short_circuit:
  assumes q: "\<forall>xs. sum_list (map length xs) \<le> length (shellquote h xs)"
      and sec: "seccompSection h s ps = (fp, s1)"
  shows "((\<exists>s'. wrapCommandWithSandboxLinux h s ps = Returns (command ps) s')
            \<longleftrightarrow> (\<not> needsNetworkRestriction ps
                 \<and> (case readConfig ps of None \<Rightarrow> True | Some rc \<Rightarrow> denyOnly rc = [])
                 \<and> writeConfig ps = None))
       \<and> (\<not> needsNetworkRestriction ps
            \<and> (case readConfig ps of None \<Rightarrow> True | Some rc \<Rightarrow> denyOnly rc = [])
            \<and> writeConfig ps = None
          \<longrightarrow> wrapCommandWithSandboxLinux h s ps = Returns (command ps) s)
       \<and> (\<not> (\<not> needsNetworkRestriction ps
               \<and> (case readConfig ps of None \<Rightarrow> True | Some rc \<Rightarrow> denyOnly rc = [])
               \<and> writeConfig ps = None)
            \<and> (\<forall>w p. normalizePathForSandbox h w p \<noteq> []
                     \<and> hd (normalizePathForSandbox h w p) = CHR ''/'')
          \<longrightarrow> (\<exists>e. networkSection h (world s1) ps = Inl e
                  \<and> wrapCommandWithSandboxLinux h s ps = Throws e (catchCleanup h s1 fp))
            \<or> (\<exists>netArgs e s2. networkSection h (world s1) ps = Inr netArgs
                  \<and> generateFilesystemArgs h s1 (readConfig ps) (writeConfig ps)
                       (searchDepth ps) (allowGitConfig ps) = Throws e s2
                  \<and> wrapCommandWithSandboxLinux h s ps = Throws e (catchCleanup h s2 fp))
            \<or> (\<exists>netArgs fsArgs s2. networkSection h (world s1) ps = Inr netArgs
                  \<and> generateFilesystemArgs h s1 (readConfig ps) (writeConfig ps)
                       (searchDepth ps) (allowGitConfig ps) = Returns fsArgs s2
                  \<and> \<not> truthy (whichSync h (world s2) (shellName ps))
                  \<and> wrapCommandWithSandboxLinux h s ps
                      = Throws (ShellNotFound (shellName ps)) (catchCleanup h s2 fp))
            \<or> (\<exists>netArgs fsArgs s2 shell e. networkSection h (world s1) ps = Inr netArgs
                  \<and> generateFilesystemArgs h s1 (readConfig ps) (writeConfig ps)
                       (searchDepth ps) (allowGitConfig ps) = Returns fsArgs s2
                  \<and> whichSync h (world s2) (shellName ps) = Some shell \<and> shell \<noteq> []
                  \<and> payload h (world s2) ps fp shell = Inl e
                  \<and> wrapCommandWithSandboxLinux h s ps = Throws e (catchCleanup h s2 fp))
            \<or> (\<exists>netArgs fsArgs s2 shell sandboxCommand.
                    networkSection h (world s1) ps = Inr netArgs
                  \<and> generateFilesystemArgs h s1 (readConfig ps) (writeConfig ps)
                       (searchDepth ps) (allowGitConfig ps) = Returns fsArgs s2
                  \<and> whichSync h (world s2) (shellName ps) = Some shell \<and> shell \<noteq> []
                  \<and> payload h (world s2) ps fp shell = Inr sandboxCommand
                  \<and> wrapCommandWithSandboxLinux h s ps
                      = Returns
                          (shellquote h
                             ([''bwrap'', ''--new-session'', ''--die-with-parent'']
                              @ netArgs @ fsArgs
                              @ [''--dev'', ''/dev'', ''--unshare-pid'']
                              @ (if \<not> enableWeakerNestedSandbox ps
                                 then [''--proc'', ''/proc''] else [])
                              @ [''--'', shell, ''-c'', sandboxCommand]))
                          s2
                  \<and> shellquote h
                       ([''bwrap'', ''--new-session'', ''--die-with-parent'']
                        @ netArgs @ fsArgs
                        @ [''--dev'', ''/dev'', ''--unshare-pid'']
                        @ (if \<not> enableWeakerNestedSandbox ps
                           then [''--proc'', ''/proc''] else [])
                        @ [''--'', shell, ''-c'', sandboxCommand]) \<noteq> command ps))"
proof -
  let ?none = "\<not> needsNetworkRestriction ps
                 \<and> (case readConfig ps of None \<Rightarrow> True | Some rc \<Rightarrow> denyOnly rc = [])
                 \<and> writeConfig ps = None"
  let ?gen = "generateFilesystemArgs h s1 (readConfig ps) (writeConfig ps)
                (searchDepth ps) (allowGitConfig ps)"
  let ?vec = "\<lambda>netArgs fsArgs shell sandboxCommand.
      [''bwrap'', ''--new-session'', ''--die-with-parent'']
      @ netArgs @ fsArgs
      @ [''--dev'', ''/dev'', ''--unshare-pid'']
      @ (if \<not> enableWeakerNestedSandbox ps then [''--proc'', ''/proc''] else [])
      @ [''--'', shell, ''-c'', sandboxCommand]"
  have differs: "shellquote h (?vec netArgs fsArgs shell x) \<noteq> command ps"
    if "payload h w ps fp shell = Inr x" for netArgs fsArgs shell x w
  proof -
    from payload_length [OF q that] have len: "length (command ps) \<le> length x" .
    have "shellquote h
        (([''bwrap'', ''--new-session'', ''--die-with-parent'']
          @ netArgs @ fsArgs
          @ [''--dev'', ''/dev'', ''--unshare-pid'']
          @ (if \<not> enableWeakerNestedSandbox ps then [''--proc'', ''/proc''] else []))
         @ [''--'', shell, ''-c'', x]) \<noteq> command ps"
      using q len by (rule composite_differs)
    then show ?thesis by simp
  qed
  have short: "wrapCommandWithSandboxLinux h s ps = Returns (command ps) s" if ?none
    using that by (simp add: wrap_not_sandboxing needsSandboxing_iff)
  have notshort: "c \<noteq> command ps"
    if nn: "\<not> ?none" and ret: "wrapCommandWithSandboxLinux h s ps = Returns c s'" for c s'
  proof -
    from nn have ns: "needsSandboxing ps" by (simp add: needsSandboxing_iff)
    from wrapTry_Returns_cases [OF wrap_Returns_stage [OF sec ns ret]]
    obtain netArgs fsArgs shell x where
      pay: "payload h (world s') ps fp shell = Inr x"
      and c: "c = shellquote h (?vec netArgs fsArgs shell x)" by blast
    from differs [OF pay, of netArgs fsArgs] show ?thesis unfolding c .
  qed
  have iff: "(\<exists>s'. wrapCommandWithSandboxLinux h s ps = Returns (command ps) s') \<longleftrightarrow> ?none"
    using short notshort by blast
  let ?E1 = "\<exists>e. networkSection h (world s1) ps = Inl e
          \<and> wrapCommandWithSandboxLinux h s ps = Throws e (catchCleanup h s1 fp)"
  let ?E2 = "\<exists>netArgs e s2. networkSection h (world s1) ps = Inr netArgs
          \<and> ?gen = Throws e s2
          \<and> wrapCommandWithSandboxLinux h s ps = Throws e (catchCleanup h s2 fp)"
  let ?E3 = "\<exists>netArgs fsArgs s2. networkSection h (world s1) ps = Inr netArgs
          \<and> ?gen = Returns fsArgs s2
          \<and> \<not> truthy (whichSync h (world s2) (shellName ps))
          \<and> wrapCommandWithSandboxLinux h s ps
              = Throws (ShellNotFound (shellName ps)) (catchCleanup h s2 fp)"
  let ?E4 = "\<exists>netArgs fsArgs s2 shell e. networkSection h (world s1) ps = Inr netArgs
          \<and> ?gen = Returns fsArgs s2
          \<and> whichSync h (world s2) (shellName ps) = Some shell \<and> shell \<noteq> []
          \<and> payload h (world s2) ps fp shell = Inl e
          \<and> wrapCommandWithSandboxLinux h s ps = Throws e (catchCleanup h s2 fp)"
  let ?E5 = "\<exists>netArgs fsArgs s2 shell sandboxCommand.
            networkSection h (world s1) ps = Inr netArgs
          \<and> ?gen = Returns fsArgs s2
          \<and> whichSync h (world s2) (shellName ps) = Some shell \<and> shell \<noteq> []
          \<and> payload h (world s2) ps fp shell = Inr sandboxCommand
          \<and> wrapCommandWithSandboxLinux h s ps
              = Returns (shellquote h (?vec netArgs fsArgs shell sandboxCommand)) s2
          \<and> shellquote h (?vec netArgs fsArgs shell sandboxCommand) \<noteq> command ps"
  have five: "?E1 \<or> ?E2 \<or> ?E3 \<or> ?E4 \<or> ?E5"
    if a: "\<not> ?none
            \<and> (\<forall>w p. normalizePathForSandbox h w p \<noteq> []
                     \<and> hd (normalizePathForSandbox h w p) = CHR ''/'')"
  proof -
    from a have ns: "needsSandboxing ps" by (simp add: needsSandboxing_iff)
    from a have abs: "\<forall>w p. normalizePathForSandbox h w p \<noteq> []
                     \<and> hd (normalizePathForSandbox h w p) = CHR ''/''" by (rule conjunct2)
    show ?thesis
    proof (cases "networkSection h (world s1) ps")
      case (Inl e)
      from wrap_Throws_network [OF sec Inl] Inl have ?E1 by blast
      then show ?thesis by (rule disjI1)
    next
      case (Inr netArgs)
      show ?thesis
      proof (cases ?gen)
        case Diverges
        from generateFilesystemArgs_not_Diverges [OF abs, of s1 "readConfig ps" "writeConfig ps"
            "searchDepth ps" "allowGitConfig ps"] Diverges
        have False by simp
        then show ?thesis ..
      next
        case (Throws e s2)
        from wrap_Throws_filesystem [OF sec ns Inr Throws] Inr Throws have ?E2 by blast
        then show ?thesis by (rule disjI2 [OF disjI1])
      next
        case (Returns fsArgs s2)
        show ?thesis
        proof (cases "truthy (whichSync h (world s2) (shellName ps))")
          case False
          from wrap_Throws_shell [OF sec ns Inr Returns False] Inr Returns False
          have ?E3 by blast
          then show ?thesis by (rule disjI2 [OF disjI2 [OF disjI1]])
        next
          case True
          then obtain shell where sh: "whichSync h (world s2) (shellName ps) = Some shell"
            "shell \<noteq> []"
            by (cases "whichSync h (world s2) (shellName ps)") auto
          show ?thesis
          proof (cases "payload h (world s2) ps fp shell")
            case (Inl e)
            from wrap_Throws_payload [OF sec ns Inr Returns sh Inl] Inr Returns sh Inl
            have ?E4 by blast
            then show ?thesis by (rule disjI2 [OF disjI2 [OF disjI2 [OF disjI1]]])
          next
            case pay: (Inr x)
            note w = wrap_Returns_composite [OF sec ns Inr Returns sh pay]
            note d = differs [OF pay, of netArgs fsArgs]
            have ?E5
              apply (rule exI [where x = netArgs], rule exI [where x = fsArgs])
              apply (rule exI [where x = s2], rule exI [where x = shell])
              apply (rule exI [where x = x])
              apply (intro conjI)
              apply (rule Inr, rule Returns, rule sh(1), rule sh(2), rule pay, rule w, rule d)
              done
            then show ?thesis by (rule disjI2 [OF disjI2 [OF disjI2 [OF disjI2]]])
          qed
        qed
      qed
    qed
  qed
  show ?thesis
    apply (intro conjI)
    subgoal by (rule iff)
    subgoal using short by (rule impI)
    subgoal using five by (rule impI)
    done
qed

text \<open>
  Instances, on the host whose normalizer yields absolute paths: no
  restriction at all, and a write restriction.
\<close>

theorem C9_witness:
  "wrapCommandWithSandboxLinux hostResolve (initialState worldPlain) baseParams
     = Returns ''echo hello'' (initialState worldPlain)
   \<and> \<not> (\<exists>s'. wrapCommandWithSandboxLinux hostResolve (initialState worldPlain)
               (writeParams [''/w''] []) = Returns ''echo hello'' s')
   \<and> wrapCommandWithSandboxLinux hostResolve (initialState worldPlain)
        (writeParams [''/w''] [])
      = Returns
          (shellquote hostResolve
             ([''bwrap'', ''--new-session'', ''--die-with-parent'']
              @ [] @ [''--ro-bind'', ''/'', ''/'', ''--bind'', ''/w'', ''/w'']
              @ [''--dev'', ''/dev'', ''--unshare-pid'']
              @ [''--proc'', ''/proc'']
              @ [''--'', ''/usr/bin/bash'', ''-c'',
                 ''/opt/srt/vendor/seccomp/x64/apply-seccomp /tmp/claude-seccomp.bpf /usr/bin/bash -c echo hello'']))
          \<lparr> world = worldPlain @ [(''/tmp/claude-seccomp.bpf'', ToyFile 104)],
            bwrapMountPoints = [],
            generatedSeccompFilters = [''/tmp/claude-seccomp.bpf''],
            exitHandlerRegistered = True \<rparr>"
proof -
  let ?ps = "writeParams [''/w''] []"
  let ?s1 = "\<lparr> world = worldPlain @ [(''/tmp/claude-seccomp.bpf'', ToyFile 104)],
          bwrapMountPoints = [],
          generatedSeccompFilters = [''/tmp/claude-seccomp.bpf''],
          exitHandlerRegistered = True \<rparr>"
  have q: "\<forall>xs. sum_list (map length xs) \<le> length (shellquote hostResolve xs)"
    by (simp add: hostResolve_def toyHost_def joinSpaces_grows)
  have abs: "\<forall>w p. normalizePathForSandbox hostResolve w p \<noteq> []
      \<and> hd (normalizePathForSandbox hostResolve w p) = CHR ''/''"
    by (simp add: hostResolve_def)
  have sec0: "seccompSection hostResolve (initialState worldPlain) baseParams
      = (Some ''/tmp/claude-seccomp.bpf'', ?s1)" by code_simp
  have sec: "seccompSection hostResolve (initialState worldPlain) ?ps
      = (Some ''/tmp/claude-seccomp.bpf'', ?s1)" by code_simp
  have a: "\<not> needsNetworkRestriction baseParams
      \<and> (case readConfig baseParams of None \<Rightarrow> True | Some rc \<Rightarrow> denyOnly rc = [])
      \<and> writeConfig baseParams = None"
    by (simp add: baseParams_def)
  have b: "\<not> (\<not> needsNetworkRestriction ?ps
      \<and> (case readConfig ?ps of None \<Rightarrow> True | Some rc \<Rightarrow> denyOnly rc = [])
      \<and> writeConfig ?ps = None)"
    by (simp add: baseParams_def writeParams_def)
  have c: "command baseParams = ''echo hello''" "command ?ps = ''echo hello''"
    by (simp_all add: baseParams_def writeParams_def)
  have 1: "wrapCommandWithSandboxLinux hostResolve (initialState worldPlain) baseParams
      = Returns ''echo hello'' (initialState worldPlain)"
    using C9_short_circuit [OF q sec0, THEN conjunct2, THEN conjunct1, THEN mp, OF a]
    unfolding c .
  have 2: "\<not> (\<exists>s'. wrapCommandWithSandboxLinux hostResolve (initialState worldPlain) ?ps
      = Returns ''echo hello'' s')"
    using C9_short_circuit [OF q sec, THEN conjunct1] b unfolding c by simp
  let ?w1 = "worldPlain @ [(''/tmp/claude-seccomp.bpf'', ToyFile 104)]"
  have net: "networkSection hostResolve ?w1 ?ps = Inr []" by code_simp
  have gen: "generateFilesystemArgs hostResolve ?s1 (readConfig ?ps) (writeConfig ?ps)
      (searchDepth ?ps) (allowGitConfig ?ps)
      = Returns [''--ro-bind'', ''/'', ''/'', ''--bind'', ''/w'', ''/w''] ?s1" by code_simp
  have sh: "whichSync hostResolve ?w1 (shellName ?ps) = Some ''/usr/bin/bash''"
    by code_simp
  have pay: "payload hostResolve ?w1 ?ps (Some ''/tmp/claude-seccomp.bpf'')
      ''/usr/bin/bash''
      = Inr ''/opt/srt/vendor/seccomp/x64/apply-seccomp /tmp/claude-seccomp.bpf /usr/bin/bash -c echo hello''"
    by code_simp
  have weak: "\<not> enableWeakerNestedSandbox ?ps" by code_simp
  note five = C9_short_circuit [OF q sec, THEN conjunct2, THEN conjunct2, THEN mp,
      OF conjI [OF b abs]]
  have 3: "wrapCommandWithSandboxLinux hostResolve (initialState worldPlain) ?ps
      = Returns
          (shellquote hostResolve
             ([''bwrap'', ''--new-session'', ''--die-with-parent'']
              @ [] @ [''--ro-bind'', ''/'', ''/'', ''--bind'', ''/w'', ''/w'']
              @ [''--dev'', ''/dev'', ''--unshare-pid'']
              @ [''--proc'', ''/proc'']
              @ [''--'', ''/usr/bin/bash'', ''-c'',
                 ''/opt/srt/vendor/seccomp/x64/apply-seccomp /tmp/claude-seccomp.bpf /usr/bin/bash -c echo hello'']))
          ?s1"
    using five by (simp add: net gen sh pay weak)
  show ?thesis using 1 2 3 by (intro conjI)
qed

text \<open>
  The claim as stated fails where there is a restriction and the shell is
  not found: the function throws, and returns no command.
\<close>

theorem C9_counterexample:
  "\<not> (\<not> needsNetworkRestriction (baseParams\<lparr>readConfig := Some \<lparr>denyOnly = [''/w'']\<rparr>\<rparr>)
       \<and> (case readConfig (baseParams\<lparr>readConfig := Some \<lparr>denyOnly = [''/w'']\<rparr>\<rparr>) of
             None \<Rightarrow> True | Some rc \<Rightarrow> denyOnly rc = [])
       \<and> writeConfig (baseParams\<lparr>readConfig := Some \<lparr>denyOnly = [''/w'']\<rparr>\<rparr>) = None)
   \<and> wrapCommandWithSandboxLinux hostNoShell (initialState worldPlain)
        (baseParams\<lparr>readConfig := Some \<lparr>denyOnly = [''/w'']\<rparr>\<rparr>)
      = Throws (ShellNotFound ''bash'')
          ((initialState worldPlain)\<lparr>exitHandlerRegistered := True\<rparr>)"
proof -
  have a: "\<not> (\<not> needsNetworkRestriction (baseParams\<lparr>readConfig := Some \<lparr>denyOnly = [''/w'']\<rparr>\<rparr>)
       \<and> (case readConfig (baseParams\<lparr>readConfig := Some \<lparr>denyOnly = [''/w'']\<rparr>\<rparr>) of
             None \<Rightarrow> True | Some rc \<Rightarrow> denyOnly rc = [])
       \<and> writeConfig (baseParams\<lparr>readConfig := Some \<lparr>denyOnly = [''/w'']\<rparr>\<rparr>) = None)"
    by (simp add: baseParams_def)
  have b: "wrapCommandWithSandboxLinux hostNoShell (initialState worldPlain)
        (baseParams\<lparr>readConfig := Some \<lparr>denyOnly = [''/w'']\<rparr>\<rparr>)
      = Throws (ShellNotFound ''bash'')
          ((initialState worldPlain)\<lparr>exitHandlerRegistered := True\<rparr>)"
    by code_simp
  show ?thesis using a b by (rule conjI)
qed

section \<open>C6: the writable binds of the nested invocation\<close>

text \<open>
  Claim C6: with a syscall filter and a network bridge in play, the writable
  \<open>--bind\<close> directives of the nested invocation are those the outer stage
  mounted as allowed-write roots, and no path the outer stage declined to
  mount is bound by the inner stage.  The code does not keep to it on
  scenario S2 with a bridge and a filter: the outer stage declines the
  scope-widening link \<open>/t/user_area/evil\<close> (it records no allowed-write root
  and emits no \<open>--bind\<close> for it), while \<open>wrapCommandWithSandboxLinux\<close> hands
  \<open>writeConfig.allowOnly\<close> to \<open>buildSandboxCommand\<close>, which tests existence
  only, and the nested invocation binds the link.
\<close>

theorem C6_inner_stage_binds_declined_path:
  "snd (allowLoop toyHost worldEvilBridge ([''--ro-bind'', ''/'', ''/''], [])
          [''/t/user_area/evil'']) = []
   \<and> innerRoots toyHost worldEvilBridge [''/t/user_area/evil''] = [''/t/user_area/evil'']
   \<and> innerBwrapArgs toyHost worldEvilBridge ''/usr/bin/bash'' ''echo hello''
        [''/t/user_area/evil'']
      = [''bwrap'', ''--unshare-all'', ''--share-net'', ''--ro-bind'', ''/'', ''/'',
         ''--bind'', ''/t/user_area/evil'', ''/t/user_area/evil'',
         ''--dev'', ''/dev'', ''--seccomp'', ''3'', ''--'', ''/usr/bin/bash'', ''-c'',
         ''echo hello'']
   \<and> wrapCommandWithSandboxLinux toyHost (initialState worldEvilBridge)
        (bridgeParams [''/t/user_area/evil''])
      = Returns
          (joinSpaces
             [''bwrap'', ''--new-session'', ''--die-with-parent'', ''--unshare-net'',
              ''--bind'', ''/tmp/http.sock'', ''/tmp/http.sock'',
              ''--bind'', ''/tmp/socks.sock'', ''/tmp/socks.sock'',
              ''--setenv'', ''HTTP_PROXY'', ''http://localhost:3128'',
              ''--ro-bind'', ''/'', ''/'',
              ''--dev'', ''/dev'', ''--unshare-pid'', ''--proc'', ''/proc'',
              ''--'', ''/usr/bin/bash'', ''-c'',
              ''/usr/bin/bash -c ''
              @ joinLines
                  (socatCommands ''/tmp/http.sock'' ''/tmp/socks.sock''
                   @ [''sleep 0.1'', ''exec 3< /tmp/claude-seccomp.bpf'',
                      joinSpaces
                        [''bwrap'', ''--unshare-all'', ''--share-net'', ''--ro-bind'', ''/'', ''/'',
                         ''--bind'', ''/t/user_area/evil'', ''/t/user_area/evil'',
                         ''--dev'', ''/dev'', ''--seccomp'', ''3'', ''--'', ''/usr/bin/bash'',
                         ''-c'', ''echo hello'']])])
          \<lparr> world = worldEvilBridge @ [(''/tmp/claude-seccomp.bpf'', ToyFile 104)],
            bwrapMountPoints = [],
            generatedSeccompFilters = [''/tmp/claude-seccomp.bpf''],
            exitHandlerRegistered = True \<rparr>"
proof -
  have a: "snd (allowLoop toyHost worldEvilBridge ([''--ro-bind'', ''/'', ''/''], [])
          [''/t/user_area/evil'']) = []" by code_simp
  have b: "innerRoots toyHost worldEvilBridge [''/t/user_area/evil'']
      = [''/t/user_area/evil'']" by code_simp
  have c: "innerBwrapArgs toyHost worldEvilBridge ''/usr/bin/bash'' ''echo hello''
        [''/t/user_area/evil'']
      = [''bwrap'', ''--unshare-all'', ''--share-net'', ''--ro-bind'', ''/'', ''/'',
         ''--bind'', ''/t/user_area/evil'', ''/t/user_area/evil'',
         ''--dev'', ''/dev'', ''--seccomp'', ''3'', ''--'', ''/usr/bin/bash'', ''-c'',
         ''echo hello'']" by code_simp
  have d: "wrapCommandWithSandboxLinux toyHost (initialState worldEvilBridge)
        (bridgeParams [''/t/user_area/evil''])
      = Returns
          (joinSpaces
             [''bwrap'', ''--new-session'', ''--die-with-parent'', ''--unshare-net'',
              ''--bind'', ''/tmp/http.sock'', ''/tmp/http.sock'',
              ''--bind'', ''/tmp/socks.sock'', ''/tmp/socks.sock'',
              ''--setenv'', ''HTTP_PROXY'', ''http://localhost:3128'',
              ''--ro-bind'', ''/'', ''/'',
              ''--dev'', ''/dev'', ''--unshare-pid'', ''--proc'', ''/proc'',
              ''--'', ''/usr/bin/bash'', ''-c'',
              ''/usr/bin/bash -c ''
              @ joinLines
                  (socatCommands ''/tmp/http.sock'' ''/tmp/socks.sock''
                   @ [''sleep 0.1'', ''exec 3< /tmp/claude-seccomp.bpf'',
                      joinSpaces
                        [''bwrap'', ''--unshare-all'', ''--share-net'', ''--ro-bind'', ''/'', ''/'',
                         ''--bind'', ''/t/user_area/evil'', ''/t/user_area/evil'',
                         ''--dev'', ''/dev'', ''--seccomp'', ''3'', ''--'', ''/usr/bin/bash'',
                         ''-c'', ''echo hello'']])])
          \<lparr> world = worldEvilBridge @ [(''/tmp/claude-seccomp.bpf'', ToyFile 104)],
            bwrapMountPoints = [],
            generatedSeccompFilters = [''/tmp/claude-seccomp.bpf''],
            exitHandlerRegistered = True \<rparr>"
    by code_simp
  show ?thesis using a b c d by blast
qed

section \<open>C7: the mount-point reaper\<close>

text \<open>
  Claim C7: \<open>cleanupBwrapMountPoints\<close> examines each registered mount point
  without following symbolic links, and unlinks it only if it is a
  zero-byte regular file.  The code does not keep to it where a registered
  mount point is, by now, a symbolic link to an empty file: \<open>lstat\<close> reports
  a link, not a regular file, but the reaper calls \<open>fs.statSync\<close>, sees the
  empty file behind the link, and unlinks the mount point.
\<close>

theorem C7_linked_mount_point_unlinked:
  "lstatSync toyHost worldLinkedMount ''/w/.bashrc'' = Some (Stats False False True 8)
   \<and> statSync toyHost worldLinkedMount ''/w/.bashrc'' = Some (Stats True False False 0)
   \<and> reapDecision toyHost worldLinkedMount ''/w/.bashrc'' = ReapUnlink
   \<and> cleanupBwrapMountPoints toyHost
        ((initialState worldLinkedMount)\<lparr>bwrapMountPoints := [''/w/.bashrc'']\<rparr>)
      = Returns ()
          (initialState [(''/w'', ToyDir [''.bashrc'', ''empty'']), (''/w/empty'', ToyFile 0)])"
proof -
  have a: "lstatSync toyHost worldLinkedMount ''/w/.bashrc'' = Some (Stats False False True 8)"
    by code_simp
  have b: "statSync toyHost worldLinkedMount ''/w/.bashrc'' = Some (Stats True False False 0)"
    by code_simp
  have c: "reapDecision toyHost worldLinkedMount ''/w/.bashrc'' = ReapUnlink"
    by code_simp
  have d: "cleanupBwrapMountPoints toyHost
        ((initialState worldLinkedMount)\<lparr>bwrapMountPoints := [''/w/.bashrc'']\<rparr>)
      = Returns ()
          (initialState [(''/w'', ToyDir [''.bashrc'', ''empty'']), (''/w/empty'', ToyFile 0)])"
    by code_simp
  show ?thesis using a b c d by blast
qed

section \<open>C10: trailing slashes\<close>
























section \<open>C8: the registries and their teardown\<close>






















section \<open>C4: the version-control entries of the mandatory deny list\<close>

text \<open>
  Claim C4: for the working directory and for every nested repository found
  by the bounded scan, \<open>.git/hooks\<close> is in the mandatory deny list whenever
  the corresponding \<open>.git\<close> exists and is a directory.  The code does not keep
  to it for a nested repository whose \<open>hooks\<close> directory holds no file.  In
  the repository \<open>/repo\<close> with the nested repository \<open>/repo/sub\<close>,
  \<open>/repo/sub/.git\<close> and \<open>/repo/sub/.git/hooks\<close> are directories; the scan,
  which lists files, reports \<open>sub/.git/config\<close> alone; \<open>/repo/sub/.git/config\<close>
  is in the deny list and \<open>/repo/sub/.git/hooks\<close> is not, and with \<open>/repo\<close>
  an allowed-write root the compiler emits no directive for it.
\<close>

theorem C4_nested_hooks_not_denied:
  "statSync hostNested worldRepo ''/repo/sub/.git'' = Some (Stats False True False 4096)
   \<and> statSync hostNested worldRepo ''/repo/sub/.git/hooks''
       = Some (Stats False True False 4096)
   \<and> scanMatches hostNested worldRepo ''/repo'' 3 False = [''sub/.git/config'']
   \<and> linuxGetMandatoryDenyPaths hostNested worldRepo 3 False
      = Some [''/repo/.bashrc'', ''/repo/.gitconfig'', ''/repo/.vscode'',
              ''/repo/.claude/commands'', ''/repo/.git/hooks'', ''/repo/.git/config'',
              ''/repo/sub/.git/config'']
   \<and> generateFilesystemArgs hostNested (initialState worldRepo) None
        (Some \<lparr> allowOnly = [''/repo''], denyWithinAllow = [] \<rparr>) 3 False
      = Returns
          [''--ro-bind'', ''/'', ''/'', ''--bind'', ''/repo'', ''/repo'',
           ''--ro-bind'', ''/dev/null'', ''/repo/.bashrc'',
           ''--ro-bind'', ''/dev/null'', ''/repo/.gitconfig'',
           ''--ro-bind'', ''/dev/null'', ''/repo/.vscode'',
           ''--ro-bind'', ''/tmp/claude-empty-Ab12Cd'', ''/repo/.claude'',
           ''--ro-bind'', ''/dev/null'', ''/repo/.git/hooks'',
           ''--ro-bind'', ''/dev/null'', ''/repo/.git/config'',
           ''--ro-bind'', ''/repo/sub/.git/config'', ''/repo/sub/.git/config'']
          \<lparr> world = worldRepo @ [(''/tmp/claude-empty-Ab12Cd'', ToyDir [])],
            bwrapMountPoints =
              [''/repo/.bashrc'', ''/repo/.gitconfig'', ''/repo/.vscode'',
               ''/repo/.claude'', ''/repo/.git/hooks'', ''/repo/.git/config''],
            generatedSeccompFilters = [],
            exitHandlerRegistered = True \<rparr>"
proof -
  have a: "statSync hostNested worldRepo ''/repo/sub/.git'' = Some (Stats False True False 4096)"
    by code_simp
  have b: "statSync hostNested worldRepo ''/repo/sub/.git/hooks''
       = Some (Stats False True False 4096)" by code_simp
  have c: "scanMatches hostNested worldRepo ''/repo'' 3 False = [''sub/.git/config'']"
    by code_simp
  have d: "linuxGetMandatoryDenyPaths hostNested worldRepo 3 False
      = Some [''/repo/.bashrc'', ''/repo/.gitconfig'', ''/repo/.vscode'',
              ''/repo/.claude/commands'', ''/repo/.git/hooks'', ''/repo/.git/config'',
              ''/repo/sub/.git/config'']" by code_simp
  have e: "generateFilesystemArgs hostNested (initialState worldRepo) None
        (Some \<lparr> allowOnly = [''/repo''], denyWithinAllow = [] \<rparr>) 3 False
      = Returns
          [''--ro-bind'', ''/'', ''/'', ''--bind'', ''/repo'', ''/repo'',
           ''--ro-bind'', ''/dev/null'', ''/repo/.bashrc'',
           ''--ro-bind'', ''/dev/null'', ''/repo/.gitconfig'',
           ''--ro-bind'', ''/dev/null'', ''/repo/.vscode'',
           ''--ro-bind'', ''/tmp/claude-empty-Ab12Cd'', ''/repo/.claude'',
           ''--ro-bind'', ''/dev/null'', ''/repo/.git/hooks'',
           ''--ro-bind'', ''/dev/null'', ''/repo/.git/config'',
           ''--ro-bind'', ''/repo/sub/.git/config'', ''/repo/sub/.git/config'']
          \<lparr> world = worldRepo @ [(''/tmp/claude-empty-Ab12Cd'', ToyDir [])],
            bwrapMountPoints =
              [''/repo/.bashrc'', ''/repo/.gitconfig'', ''/repo/.vscode'',
               ''/repo/.claude'', ''/repo/.git/hooks'', ''/repo/.git/config''],
            generatedSeccompFilters = [],
            exitHandlerRegistered = True \<rparr>" by code_simp
  show ?thesis using a b c d e by (intro conjI)
qed

section \<open>C2: rename blocking in the macOS profile\<close>

lemma ancestorDirectories_unfold:
  assumes "p \<noteq> []" and "hd p = CHR ''/''" and "p \<noteq> ''/''"
  shows "ancestorDirectories p = dirname p # ancestorDirectories (dirname p)"
  using dirname_shorter [OF assms] assms(3)
  by (subst ancestorDirectories.simps) simp

lemma ancestorDirectories_root: "ancestorDirectories ''/'' = []"
  by (subst ancestorDirectories.simps) simp

lemma ancestorDirectories_chain:
  assumes "p \<noteq> []" and "hd p = CHR ''/''" and "p \<noteq> ''/''"
  shows "dirname p \<in> set (ancestorDirectories p)
     \<and> ''/'' \<in> set (ancestorDirectories p)
     \<and> (\<forall>a \<in> set (ancestorDirectories p).
           a \<noteq> ''/'' \<longrightarrow> dirname a \<in> set (ancestorDirectories p))"
  using assms
proof (induction "length p" arbitrary: p rule: less_induct)
  case less
  let ?q = "dirname p"
  have unf: "ancestorDirectories p = ?q # ancestorDirectories ?q"
    by (rule ancestorDirectories_unfold) (rule less.prems)+
  have q: "?q \<noteq> []" "hd ?q = CHR ''/''"
    using dirname_absolute [OF less.prems(1,2)] by simp_all
  have shorter: "length ?q < length p" by (rule dirname_shorter) (rule less.prems)+
  show ?case
  proof (cases "?q = ''/''")
    case True
    then show ?thesis unfolding unf by (simp add: ancestorDirectories_root)
  next
    case False
    from less.hyps [OF shorter q False]
    have ih: "dirname ?q \<in> set (ancestorDirectories ?q)"
      "''/'' \<in> set (ancestorDirectories ?q)"
      "\<forall>a \<in> set (ancestorDirectories ?q). a \<noteq> ''/'' \<longrightarrow> dirname a \<in> set (ancestorDirectories ?q)"
      by simp_all
    show ?thesis unfolding unf using ih by auto
  qed
qed

lemma readDenyRules_member:
  "(if hasWildcard d then Deny ''file-read*'' (GlobPattern d)
    else Deny ''file-read*'' (SubPath d)) \<in> set (readDenyRules d)"
  "(if hasWildcard d then Deny ''file-write-unlink'' (GlobPattern d)
    else Deny ''file-write-unlink'' (SubPath d)) \<in> set (readDenyRules d)"
  "a \<in> set (ancestorDirectories (renameChainStart d))
     \<Longrightarrow> Deny ''file-write-unlink'' (LiteralPath a) \<in> set (readDenyRules d)"
  "hasWildcard d
     \<Longrightarrow> Deny ''file-write-unlink'' (LiteralPath (globBaseDir d)) \<in> set (readDenyRules d)"
  by (auto simp: readDenyRules_def renameChainStart_def)

lemma macReadDenyProfile_member:
  "d \<in> set denyPaths \<Longrightarrow> r \<in> set (readDenyRules d) \<Longrightarrow> r \<in> set (macReadDenyProfile denyPaths)"
  by (auto simp: macReadDenyProfile_def)

text \<open>
  Claim C2.  For every path \<open>d\<close> of the read deny list, the profile holds the
  \<open>file-read*\<close> deny rule for \<open>d\<close> (in glob form for a pattern), a
  \<open>file-write-unlink\<close> deny rule for \<open>d\<close> itself, and a \<open>file-write-unlink\<close>
  deny rule for every ancestor directory of the start of its chain, which is
  \<open>d\<close> itself for a literal path and the directory of the literal base for a
  pattern (that directory has its own rule).  The ancestor directories of
  an absolute path other than \<open>/\<close> hold its parent and \<open>/\<close>, and with every
  directory other than \<open>/\<close> its parent: the chain goes up to \<open>/\<close>.
\<close>

theorem C2_read_deny_rename_blocking:
  assumes "d \<in> set denyPaths"
  shows "(if hasWildcard d then Deny ''file-read*'' (GlobPattern d)
          else Deny ''file-read*'' (SubPath d)) \<in> set (macReadDenyProfile denyPaths)
       \<and> (if hasWildcard d then Deny ''file-write-unlink'' (GlobPattern d)
           else Deny ''file-write-unlink'' (SubPath d)) \<in> set (macReadDenyProfile denyPaths)
       \<and> (\<forall>a \<in> set (ancestorDirectories (renameChainStart d)).
             Deny ''file-write-unlink'' (LiteralPath a) \<in> set (macReadDenyProfile denyPaths))
       \<and> (hasWildcard d \<longrightarrow>
             renameChainStart d = globBaseDir d
             \<and> Deny ''file-write-unlink'' (LiteralPath (globBaseDir d))
                 \<in> set (macReadDenyProfile denyPaths))
       \<and> (\<not> hasWildcard d \<longrightarrow> renameChainStart d = d)
       \<and> (renameChainStart d \<noteq> [] \<and> hd (renameChainStart d) = CHR ''/''
            \<and> renameChainStart d \<noteq> ''/''
          \<longrightarrow> dirname (renameChainStart d) \<in> set (ancestorDirectories (renameChainStart d))
              \<and> ''/'' \<in> set (ancestorDirectories (renameChainStart d))
              \<and> (\<forall>a \<in> set (ancestorDirectories (renameChainStart d)).
                    a \<noteq> ''/'' \<longrightarrow>
                    dirname a \<in> set (ancestorDirectories (renameChainStart d))))"
proof (intro conjI ballI impI)
  show "(if hasWildcard d then Deny ''file-read*'' (GlobPattern d)
          else Deny ''file-read*'' (SubPath d)) \<in> set (macReadDenyProfile denyPaths)"
    by (rule macReadDenyProfile_member [OF assms readDenyRules_member(1)])
  show "(if hasWildcard d then Deny ''file-write-unlink'' (GlobPattern d)
           else Deny ''file-write-unlink'' (SubPath d)) \<in> set (macReadDenyProfile denyPaths)"
    by (rule macReadDenyProfile_member [OF assms readDenyRules_member(2)])
next
  fix a
  assume "a \<in> set (ancestorDirectories (renameChainStart d))"
  then show "Deny ''file-write-unlink'' (LiteralPath a) \<in> set (macReadDenyProfile denyPaths)"
    by (rule macReadDenyProfile_member [OF assms readDenyRules_member(3)])
next
  assume "hasWildcard d"
  then show "renameChainStart d = globBaseDir d" by (simp add: renameChainStart_def)
next
  assume "hasWildcard d"
  then show "Deny ''file-write-unlink'' (LiteralPath (globBaseDir d))
                 \<in> set (macReadDenyProfile denyPaths)"
    by (rule macReadDenyProfile_member [OF assms readDenyRules_member(4)])
next
  assume "\<not> hasWildcard d"
  then show "renameChainStart d = d" by (simp add: renameChainStart_def)
next
  assume abs: "renameChainStart d \<noteq> [] \<and> hd (renameChainStart d) = CHR ''/''
            \<and> renameChainStart d \<noteq> ''/''"
  then have chain: "dirname (renameChainStart d) \<in> set (ancestorDirectories (renameChainStart d))
     \<and> ''/'' \<in> set (ancestorDirectories (renameChainStart d))
     \<and> (\<forall>a \<in> set (ancestorDirectories (renameChainStart d)).
           a \<noteq> ''/'' \<longrightarrow> dirname a \<in> set (ancestorDirectories (renameChainStart d)))"
    by (elim conjE) (rule ancestorDirectories_chain)
  from chain show "dirname (renameChainStart d) \<in> set (ancestorDirectories (renameChainStart d))"
    by (rule conjunct1)
  from chain show "''/'' \<in> set (ancestorDirectories (renameChainStart d))"
    by (rule conjunct2 [THEN conjunct1])
  fix a
  assume a: "a \<in> set (ancestorDirectories (renameChainStart d))" and nr: "a \<noteq> ''/''"
  from chain have "\<forall>a \<in> set (ancestorDirectories (renameChainStart d)).
           a \<noteq> ''/'' \<longrightarrow> dirname a \<in> set (ancestorDirectories (renameChainStart d))"
    by (rule conjunct2 [THEN conjunct2])
  from this a have "a \<noteq> ''/'' \<longrightarrow> dirname a \<in> set (ancestorDirectories (renameChainStart d))"
    by (rule bspec)
  from this nr show "dirname a \<in> set (ancestorDirectories (renameChainStart d))"
    by (rule mp)
qed

text \<open>
  Instances: scenario S3 of the specification, the read-denied directory
  \<open>/tmp/T/denied\<close>, and a pattern under \<open>/tmp/T/glob-test\<close>.
\<close>

theorem C2_witness:
  "''/tmp/T/denied'' \<in> set [''/tmp/T/denied'', ''/tmp/T/glob-test/*.txt'']
   \<and> macReadDenyProfile [''/tmp/T/denied'', ''/tmp/T/glob-test/*.txt'']
      = [Deny ''file-read*'' (SubPath ''/tmp/T/denied''),
         Deny ''file-write-unlink'' (SubPath ''/tmp/T/denied''),
         Deny ''file-write-unlink'' (LiteralPath ''/tmp/T''),
         Deny ''file-write-unlink'' (LiteralPath ''/tmp''),
         Deny ''file-write-unlink'' (LiteralPath ''/''),
         Deny ''file-read*'' (GlobPattern ''/tmp/T/glob-test/*.txt''),
         Deny ''file-write-unlink'' (GlobPattern ''/tmp/T/glob-test/*.txt''),
         Deny ''file-write-unlink'' (LiteralPath ''/tmp/T/glob-test''),
         Deny ''file-write-unlink'' (LiteralPath ''/tmp/T''),
         Deny ''file-write-unlink'' (LiteralPath ''/tmp''),
         Deny ''file-write-unlink'' (LiteralPath ''/'')]
   \<and> Deny ''file-read*'' (SubPath ''/tmp/T/denied'')
        \<in> set (macReadDenyProfile [''/tmp/T/denied'', ''/tmp/T/glob-test/*.txt''])
   \<and> Deny ''file-write-unlink'' (LiteralPath ''/tmp'')
        \<in> set (macReadDenyProfile [''/tmp/T/denied'', ''/tmp/T/glob-test/*.txt''])"
proof -
  have m: "''/tmp/T/denied'' \<in> set [''/tmp/T/denied'', ''/tmp/T/glob-test/*.txt'']" by simp
  have nw: "\<not> hasWildcard ''/tmp/T/denied''" by code_simp
  have gw: "hasWildcard ''/tmp/T/glob-test/*.txt''" by code_simp
  have gb: "globBaseDir ''/tmp/T/glob-test/*.txt'' = ''/tmp/T/glob-test''" by code_simp
  have d0: "dirname ''/tmp/T/glob-test'' = ''/tmp/T''" by code_simp
  have d1: "dirname ''/tmp/T/denied'' = ''/tmp/T''" by code_simp
  have d2: "dirname ''/tmp/T'' = ''/tmp''" by code_simp
  have d3: "dirname ''/tmp'' = ''/''" by code_simp
  have a3: "ancestorDirectories ''/tmp'' = [''/'']"
    by (simp only: ancestorDirectories_unfold [of "''/tmp''", simplified] d3
        ancestorDirectories_root)
  have a2: "ancestorDirectories ''/tmp/T'' = [''/tmp'', ''/'']"
    by (simp only: ancestorDirectories_unfold [of "''/tmp/T''", simplified] d2 a3)
  have a1: "ancestorDirectories ''/tmp/T/denied'' = [''/tmp/T'', ''/tmp'', ''/'']"
    by (simp only: ancestorDirectories_unfold [of "''/tmp/T/denied''", simplified] d1 a2)
  have a0: "ancestorDirectories ''/tmp/T/glob-test'' = [''/tmp/T'', ''/tmp'', ''/'']"
    by (simp only: ancestorDirectories_unfold [of "''/tmp/T/glob-test''", simplified] d0 a2)
  have anc: "ancestorDirectories (renameChainStart ''/tmp/T/denied'')
      = [''/tmp/T'', ''/tmp'', ''/'']"
    using nw by (simp only: renameChainStart_def if_False a1)
  have r1: "readDenyRules ''/tmp/T/denied''
      = [Deny ''file-read*'' (SubPath ''/tmp/T/denied''),
         Deny ''file-write-unlink'' (SubPath ''/tmp/T/denied''),
         Deny ''file-write-unlink'' (LiteralPath ''/tmp/T''),
         Deny ''file-write-unlink'' (LiteralPath ''/tmp''),
         Deny ''file-write-unlink'' (LiteralPath ''/'')]"
    using nw by (simp only: readDenyRules_def if_False a1 list.map append.simps)
  have r2: "readDenyRules ''/tmp/T/glob-test/*.txt''
      = [Deny ''file-read*'' (GlobPattern ''/tmp/T/glob-test/*.txt''),
         Deny ''file-write-unlink'' (GlobPattern ''/tmp/T/glob-test/*.txt''),
         Deny ''file-write-unlink'' (LiteralPath ''/tmp/T/glob-test''),
         Deny ''file-write-unlink'' (LiteralPath ''/tmp/T''),
         Deny ''file-write-unlink'' (LiteralPath ''/tmp''),
         Deny ''file-write-unlink'' (LiteralPath ''/'')]"
    using gw by (simp only: readDenyRules_def if_True gb a0 list.map append.simps)
  have prof: "macReadDenyProfile [''/tmp/T/denied'', ''/tmp/T/glob-test/*.txt'']
      = [Deny ''file-read*'' (SubPath ''/tmp/T/denied''),
         Deny ''file-write-unlink'' (SubPath ''/tmp/T/denied''),
         Deny ''file-write-unlink'' (LiteralPath ''/tmp/T''),
         Deny ''file-write-unlink'' (LiteralPath ''/tmp''),
         Deny ''file-write-unlink'' (LiteralPath ''/''),
         Deny ''file-read*'' (GlobPattern ''/tmp/T/glob-test/*.txt''),
         Deny ''file-write-unlink'' (GlobPattern ''/tmp/T/glob-test/*.txt''),
         Deny ''file-write-unlink'' (LiteralPath ''/tmp/T/glob-test''),
         Deny ''file-write-unlink'' (LiteralPath ''/tmp/T''),
         Deny ''file-write-unlink'' (LiteralPath ''/tmp''),
         Deny ''file-write-unlink'' (LiteralPath ''/'')]"
    by (simp only: macReadDenyProfile_def list.map concat.simps r1 r2 append.simps)
  note inst = C2_read_deny_rename_blocking [OF m]
  from inst [THEN conjunct1] nw
  have a: "Deny ''file-read*'' (SubPath ''/tmp/T/denied'')
        \<in> set (macReadDenyProfile [''/tmp/T/denied'', ''/tmp/T/glob-test/*.txt''])"
    by (simp only: if_False)
  have "''/tmp'' \<in> set (ancestorDirectories (renameChainStart ''/tmp/T/denied''))"
    unfolding anc by simp
  with inst [THEN conjunct2, THEN conjunct2, THEN conjunct1]
  have b: "Deny ''file-write-unlink'' (LiteralPath ''/tmp'')
        \<in> set (macReadDenyProfile [''/tmp/T/denied'', ''/tmp/T/glob-test/*.txt''])"
    by (rule bspec)
  show ?thesis using m prof a b by (intro conjI)
qed

end
